theory Spec2Isabelle
  imports Complex_Main
begin

section \<open>JavaScript values\<close>

text \<open>
  The dashboard reads a JSON document and hands its values to formatters and filters.
  A JavaScript number is a finite double, \<open>NaN\<close> or one of the two infinities; the
  finite ones are carried as reals. They are compared with constants and, in one
  formatter, divided by a power of ten before they are printed; nothing else is computed
  with them.
\<close>

datatype jsnumber = Finite real | NaN | PosInfinity | NegInfinity

datatype jsval = JUndefined | JNull | JBool bool | JNum jsnumber | JStr string

text \<open>The TypeScript type \<open>number | string\<close> of the numeric fundamentals.\<close>

datatype numstr = Num jsnumber | Str string

fun of_numstr :: "numstr \<Rightarrow> jsval" where
  "of_numstr (Num n) = JNum n"
| "of_numstr (Str s) = JStr s"

section \<open>The data model of \<open>types/stock.ts\<close>\<close>

datatype action = Buy | Add | Sell | Reduce | Hold | New

record Activity =
  action :: action
  percentage :: "jsnumber option"

record Investor =
  name :: string
  fund_id :: string
  portfolio_pct :: "jsnumber option"
  shares :: "jsnumber option"
  activity :: Activity
  activity_raw :: string
  source_url :: string

text \<open>
  \<open>SubstackMention.thesis\<close> is the field \<open>mention_thesis\<close> here: the record \<open>Stock\<close>
  below has a field \<open>thesis\<close> of its own.
\<close>

record SubstackMention =
  publication :: string
  article_title :: string
  article_url :: string
  mention_thesis :: string
  published_date :: "string option"

record DataromaData =
  investors :: "Investor list"

record SubstackData =
  mentions :: "SubstackMention list"

record Fundamentals =
  pe_ratio :: numstr
  forward_pe :: numstr
  pb_ratio :: numstr
  peg_ratio :: numstr
  week_52_high :: numstr
  week_52_low :: numstr
  pct_above_52w_low :: numstr
  pct_below_52w_high :: numstr
  current_price :: numstr
  previous_close :: numstr
  total_cash :: numstr
  total_debt :: numstr
  long_term_debt :: numstr
  net_debt :: numstr
  market_cap :: numstr
  insider_pct :: numstr
  institutional_pct :: numstr
  sector :: string
  industry :: string
  country :: string
  currency :: string
  exchange :: string
  is_international :: bool

text \<open>
  \<open>sources\<close> is a list of strings, as the JSON document has it (the TypeScript type
  narrows it to the literals \<open>'Dataroma'\<close> and \<open>'Substack'\<close>; the legacy script has no
  types). \<open>fundamentals\<close> is optional: every reader goes through \<open>row.fundamentals?.f\<close>,
  so \<open>None\<close> stands for a record without the field.
\<close>

record Stock =
  ticker :: string
  company_name :: string
  sources :: "string list"
  dataroma_data :: DataromaData
  substack_data :: SubstackData
  fundamentals :: "Fundamentals option"
  stockanalysis_link :: string
  is_etf :: bool
  thesis :: "string option"
  aggregate_activity :: string
  investor_count :: jsnumber
  mention_count :: jsnumber

record Stats =
  dataroma_stocks :: jsnumber
  substack_stocks :: jsnumber
  both_sources :: jsnumber
  dataroma_only :: jsnumber
  substack_only :: jsnumber

record StockData =
  last_updated :: string
  total_stocks :: jsnumber
  stats :: Stats
  stocks :: "Stock list"

section \<open>The legacy dashboard script: \<open>updateMetadata\<close>\<close>

text \<open>
  \<open>updateMetadata(data)\<close> counts the stocks of each source with three filters over
  \<open>data.stocks\<close> and writes the counts into the page. \<open>Array.prototype.includes\<close> on a
  list of strings is membership.
\<close>

definition dataromaCount :: "StockData \<Rightarrow> nat" where
  "dataromaCount data = length (filter (\<lambda>s. ''Dataroma'' \<in> set (sources s)) (stocks data))"

definition substackCount :: "StockData \<Rightarrow> nat" where
  "substackCount data = length (filter (\<lambda>s. ''Substack'' \<in> set (sources s)) (stocks data))"

definition bothCount :: "StockData \<Rightarrow> nat" where
  "bothCount data =
     length (filter (\<lambda>s. ''Dataroma'' \<in> set (sources s) \<and> ''Substack'' \<in> set (sources s))
       (stocks data))"

text \<open>
  The texts the function sets on \<open>#total-stocks\<close>, \<open>#dataroma-count\<close>,
  \<open>#substack-count\<close> and \<open>#both-sources\<close> (the timestamp line, a locale-dependent
  rendering of \<open>data.last_updated\<close>, is left out).
\<close>

record metadata_texts =
  total_stocks_text :: jsnumber
  dataroma_count_text :: nat
  substack_count_text :: nat
  both_sources_text :: nat

definition updateMetadata :: "StockData \<Rightarrow> metadata_texts" where
  "updateMetadata data =
     \<lparr> total_stocks_text = total_stocks data,
       dataroma_count_text = dataromaCount data,
       substack_count_text = substackCount data,
       both_sources_text = bothCount data \<rparr>"

section \<open>\<open>App.tsx\<close>: \<open>handleThesisUpdate\<close>\<close>

text \<open>
  The updater passed to \<open>setTableData\<close>: \<open>None\<close> is the \<open>null\<close> state before the data
  has loaded, which is returned as it is.
\<close>

definition handleThesisUpdate :: "string \<Rightarrow> string \<Rightarrow> StockData option \<Rightarrow> StockData option" where
  "handleThesisUpdate t th prev =
     (case prev of
        None \<Rightarrow> None
      | Some d \<Rightarrow>
          Some (d\<lparr>stocks :=
            map (\<lambda>stock. if ticker stock = t then stock\<lparr>thesis := Some th\<rparr> else stock)
              (stocks d)\<rparr>))"

section \<open>\<open>stockColumns.tsx\<close> and the legacy table: the Activity column\<close>

text \<open>
  What a cell renders: an element with its tag, its attributes and its children, or a
  text node. Event handlers are not part of the tree.
\<close>

datatype jsx = Text string | Element string "(string \<times> string) list" "jsx list"

text \<open>
  \<open>String.prototype.toLowerCase\<close> on the ASCII letters (the activity tags are ASCII).
\<close>

definition lower_char :: "char \<Rightarrow> char" where
  "lower_char c =
     (let n = (of_char c :: nat) in if 65 \<le> n \<and> n \<le> 90 then char_of (n + 32) else c)"

definition toLowerCase :: "string \<Rightarrow> string" where
  "toLowerCase s = map lower_char s"

definition getActivityBadgeClass :: "string \<Rightarrow> string" where
  "getActivityBadgeClass act =
     (let a = toLowerCase act in
      if a = ''new'' \<or> a = ''buy'' then ''bg-green-100 text-green-800''
      else if a = ''add'' then ''bg-blue-100 text-blue-800''
      else if a = ''sell'' then ''bg-red-100 text-red-800''
      else if a = ''reduce'' then ''bg-orange-100 text-orange-800''
      else ''bg-gray-100 text-gray-600'')"

text \<open>
  The \<open>cell\<close> of the column \<open>activity\<close> of \<open>getStockColumns\<close>. (Local variables that
  share a name with a record field are shortened: \<open>act\<close> is the source's \<open>activity\<close>.)
\<close>

definition activity_cell :: "Stock \<Rightarrow> jsx" where
  "activity_cell row =
     (let act = aggregate_activity row in
      if act = ''Hold''
      then Element ''span'' [(''className'', ''text-gray-400'')] [Text ''-'']
      else Element ''span''
             [(''className'', ''px-2 py-1 text-xs rounded-full '' @ getActivityBadgeClass act)]
             [Text act])"

text \<open>\<open>String.prototype.includes\<close>: the needle occurs as a contiguous part.\<close>

fun str_includes :: "string \<Rightarrow> string \<Rightarrow> bool" where
  "str_includes [] needle = (needle = [])"
| "str_includes (c # cs) needle =
     (take (length needle) (c # cs) = needle \<or> str_includes cs needle)"

text \<open>
  The \<open>render\<close> of the legacy table's column bound to \<open>dataroma_data.activity\<close>. Its
  argument is \<open>None\<close> when the row has no such value (\<open>undefined\<close> or \<open>null\<close>): a record of
  type \<open>Stock\<close> has none, since \<open>DataromaData\<close> holds \<open>investors\<close> only. The result is
  the HTML text of the cell.
\<close>

definition legacy_activity_render :: "string option \<Rightarrow> string" where
  "legacy_activity_render data =
     (case data of
        None \<Rightarrow> ''-''
      | Some d \<Rightarrow>
          if d = [] \<or> d = ''Hold'' then ''-''
          else
            (let badgeClass =
               (if str_includes d ''New'' then ''activity-new''
                else if str_includes d ''Increased'' then ''activity-increase''
                else if str_includes d ''Decreased'' then ''activity-decrease''
                else ''bg-secondary'')
             in ''<span class='' @ [CHR 0x22] @ ''badge '' @ badgeClass @ [CHR 0x22] @ ''>''
                  @ d @ ''</span>''))"

section \<open>\<open>api/thesis.ts\<close>: the thesis endpoint\<close>

text \<open>
  The JSON body of a request, as \<open>ThesisRequest\<close> declares it; \<open>None\<close> in a field is
  \<open>undefined\<close> (the field is missing). The fields carry the prefix \<open>req_\<close>, and those of
  \<open>ThesisResponse\<close> the prefix \<open>r_\<close>, because \<open>Stock\<close> has fields of the same names.
\<close>

record ThesisRequest =
  req_ticker :: "string option"
  req_company_name :: "string option"
  req_investor_names :: "string list option"
  req_password :: "string option"

record ThesisResponse =
  r_success :: bool
  r_thesis :: "string option"
  r_error :: "string option"
  r_ticker :: "string option"

text \<open>
  An incoming request: its method (\<open>request.method\<close>) and what \<open>await request.json()\<close>
  followed by the destructuring gives, \<open>None\<close> when either throws (no body, a body that
  is not JSON, the JSON value \<open>null\<close>).
\<close>

record Request =
  req_method :: string
  json_body :: "ThesisRequest option"

text \<open>The response: \<open>body = None\<close> is the \<open>null\<close> body of the preflight answer.\<close>

record Response =
  status :: nat
  headers :: "(string \<times> string) list"
  body :: "ThesisResponse option"

record process_env =
  THESIS_PASSWORD :: "string option"
  PERPLEXITY_API_KEY :: "string option"

text \<open>The one outbound call the handler can make, with the fields it sends.\<close>

record perplexity_request =
  pr_url :: string
  pr_authorization :: string
  pr_model :: string
  pr_system_content :: string
  pr_user_content :: string
  pr_max_tokens :: nat

text \<open>
  What the call gives back. \<open>FetchThrows\<close>: \<open>fetch\<close> rejects. Otherwise the response has
  its \<open>ok\<close> flag, its text (\<open>None\<close> when \<open>text()\<close> rejects) and its JSON: \<open>BadJson\<close> when
  \<open>json()\<close> rejects or the chain \<open>choices?.[0]?.message?.content?.trim()\<close> throws (the
  value is \<open>null\<close>, the content is not a string), else the content, \<open>None\<close> when the
  optional chain ends in \<open>undefined\<close>.
\<close>

datatype json_result = BadJson | JsonContent "string option"

datatype fetch_result = FetchThrows | FetchResponse bool "string option" json_result

text \<open>\<open>String.prototype.trim\<close>, on the ASCII white space.\<close>

definition is_space :: "char \<Rightarrow> bool" where
  "is_space c = ((of_char c :: nat) \<in> {9, 10, 11, 12, 13, 32})"

definition trim :: "string \<Rightarrow> string" where
  "trim s = rev (dropWhile is_space (rev (dropWhile is_space s)))"

text \<open>\<open>Array.prototype.join\<close>.\<close>

fun join :: "string \<Rightarrow> string list \<Rightarrow> string" where
  "join sep [] = []"
| "join sep [x] = x"
| "join sep (x # y # ys) = x @ sep @ join sep (y # ys)"

definition json_headers :: "(string \<times> string) list" where
  "json_headers =
     [(''Content-Type'', ''application/json''), (''Access-Control-Allow-Origin'', ''*'')]"

definition failure :: "nat \<Rightarrow> string \<Rightarrow> Response" where
  "failure code msg =
     \<lparr> status = code, headers = json_headers,
       body = Some \<lparr> r_success = False, r_thesis = None, r_error = Some msg, r_ticker = None \<rparr> \<rparr>"

definition build_prompt :: "ThesisRequest \<Rightarrow> string \<Rightarrow> string" where
  "build_prompt b tk =
     (let investorList =
            (case req_investor_names b of
               None \<Rightarrow> ''value investors''
             | Some ns \<Rightarrow> if length ns > 0 then join '', '' (take 5 ns) else ''value investors'');
          companyInfo =
            (case req_company_name b of
               None \<Rightarrow> tk
             | Some c \<Rightarrow> if c = [] then tk else c @ '' ('' @ tk @ '')'')
      in ''Why might '' @ investorList @ '' be buying '' @ companyInfo
           @ ''? What's the investment thesis? Provide a concise answer in 2-3 lines maximum, focusing on the key bull case.'')"

definition perplexity_call :: "string \<Rightarrow> string \<Rightarrow> perplexity_request" where
  "perplexity_call key prompt =
     \<lparr> pr_url = ''https://api.perplexity.ai/chat/completions'',
       pr_authorization = ''Bearer '' @ key,
       pr_model = ''llama-3.1-sonar-small-128k-online'',
       pr_system_content = ''You are a concise financial analyst. Provide brief, actionable investment insights. Focus on the key thesis in 2-3 sentences maximum.'',
       pr_user_content = prompt,
       pr_max_tokens = 200 \<rparr>"

text \<open>
  The handler, in the order of its checks. It returns the response and the list of calls
  made to the Perplexity API; \<open>api\<close> is the remote service. Every \<open>throw\<close> inside the
  \<open>try\<close> block ends in the \<open>catch\<close> answer, status 500 with \<open>Internal server error\<close>.
\<close>

definition handler ::
  "process_env \<Rightarrow> (perplexity_request \<Rightarrow> fetch_result) \<Rightarrow> Request \<Rightarrow> Response \<times> perplexity_request list"
where
  "handler env api request =
     (if req_method request = ''OPTIONS'' then
        (\<lparr> status = 200,
           headers = [(''Access-Control-Allow-Origin'', ''*''),
                      (''Access-Control-Allow-Methods'', ''POST, OPTIONS''),
                      (''Access-Control-Allow-Headers'', ''Content-Type'')],
           body = None \<rparr>, [])
      else if req_method request \<noteq> ''POST'' then (failure 405 ''Method not allowed'', [])
      else
        (case json_body request of
           None \<Rightarrow> (failure 500 ''Internal server error'', [])
         | Some b \<Rightarrow>
            (case THESIS_PASSWORD env of
               None \<Rightarrow> (failure 500 ''Server not configured'', [])
             | Some expectedPassword \<Rightarrow>
                if expectedPassword = [] then (failure 500 ''Server not configured'', [])
                else if req_password b \<noteq> Some expectedPassword
                  then (failure 401 ''Invalid password'', [])
                else
                  (case req_ticker b of
                     None \<Rightarrow> (failure 400 ''Ticker is required'', [])
                   | Some tk \<Rightarrow>
                      if tk = [] then (failure 400 ''Ticker is required'', [])
                      else
                        (case PERPLEXITY_API_KEY env of
                           None \<Rightarrow> (failure 500 ''Perplexity API not configured'', [])
                         | Some key \<Rightarrow>
                            if key = [] then (failure 500 ''Perplexity API not configured'', [])
                            else
                              (let call = perplexity_call key (build_prompt b tk) in
                               (case api call of
                                  FetchThrows \<Rightarrow> (failure 500 ''Internal server error'', [call])
                                | FetchResponse ok txt js \<Rightarrow>
                                   if \<not> ok then
                                     (case txt of
                                        None \<Rightarrow> (failure 500 ''Internal server error'', [call])
                                      | Some errorText \<Rightarrow>
                                          (failure 500 ''Failed to generate thesis'', [call]))
                                   else
                                     (case js of
                                        BadJson \<Rightarrow> (failure 500 ''Internal server error'', [call])
                                      | JsonContent content \<Rightarrow>
                                         (let th = (case content of None \<Rightarrow> [] | Some c \<Rightarrow> trim c) in
                                          if th = [] then (failure 500 ''No thesis generated'', [call])
                                          else
                                            (\<lparr> status = 200, headers = json_headers,
                                               body = Some \<lparr> r_success = True, r_thesis = Some th,
                                                             r_error = None, r_ticker = Some tk \<rparr> \<rparr>,
                                             [call]))))))))))"

text \<open>The password a request carries, \<open>None\<close> when it has no readable body or no field.\<close>

definition request_password :: "Request \<Rightarrow> string option" where
  "request_password request =
     (case json_body request of None \<Rightarrow> None | Some b \<Rightarrow> req_password b)"

text \<open>The two shapes of a JSON answer.\<close>

definition success_shape :: "ThesisResponse \<Rightarrow> bool" where
  "success_shape r = (r_success r \<and> r_thesis r \<noteq> None \<and> r_error r = None)"

definition failure_shape :: "ThesisResponse \<Rightarrow> bool" where
  "failure_shape r = (\<not> r_success r \<and> r_error r \<noteq> None \<and> r_thesis r = None)"

section \<open>The Merger's aggregate activity\<close>

text \<open>
  The pipeline that writes \<open>stocks.json\<close> (\<open>src/processors/data_merger.py\<close>, named by the
  repository's documentation) is not among the source files; only the dashboard that
  reads its output is. The definition of this section is therefore taken from the
  specification, section 4.2, step 4.
\<close>

text \<open>
  Modelled from the spec: the Merger's AggregateActivity computation (the Python merger is
  missing from the sources). The portfolio observations' tags are scanned in encounter
  order: \<open>New\<close> wins over everything; otherwise the first \<open>Add\<close> or \<open>Buy\<close> is the
  aggregate ("aggregate is that tag"); otherwise the first \<open>Reduce\<close> or \<open>Sell\<close>; otherwise,
  and for no observations at all, \<open>Hold\<close>.
\<close>

definition aggregate_activity_of :: "action list \<Rightarrow> action" where
  "aggregate_activity_of tags =
     (if New \<in> set tags then New
      else
        (case find (\<lambda>a. a = Add \<or> a = Buy) tags of
           Some a \<Rightarrow> a
         | None \<Rightarrow>
            (case find (\<lambda>a. a = Reduce \<or> a = Sell) tags of
               Some a \<Rightarrow> a
             | None \<Rightarrow> Hold)))"

section \<open>The legacy table: the keys of its columns\<close>

text \<open>
  The \<open>data\<close> keys of the columns of \<open>initializeTable\<close>, in order. Each column's
  \<open>render\<close> function uses its argument \<open>data\<close>, the value under the key, and neither
  \<open>row\<close> nor anything else of the record.
\<close>

definition legacy_column_data :: "string list" where
  "legacy_column_data =
     [''ticker'', ''company_name'', ''pe_ratio'', ''pb_ratio'', ''week_52_high'', ''week_52_low'',
      ''peg_ratio'', ''insider_pct'', ''sources'', ''dataroma_data.investors'',
      ''dataroma_data.activity'', ''substack_data.thesis'', ''stockanalysis_link'']"

text \<open>
  The names C4 lists, as the keys a column can be bound to: one of the nine plain names,
  or a field of \<open>fundamentals\<close>.
\<close>

definition listed_key :: "string \<Rightarrow> bool" where
  "listed_key k =
     (k \<in> set [''ticker'', ''company_name'', ''sources'', ''dataroma_data.investors'',
                ''substack_data.mentions'', ''aggregate_activity'', ''investor_count'',
                ''mention_count'', ''stockanalysis_link'']
      \<or> take 13 k = ''fundamentals.'')"

section \<open>\<open>stockColumns.tsx\<close>: the readers of the fundamentals\<close>

text \<open>
  The formatters take \<open>number | string | null | undefined\<close>. Number formatting is the
  runtime's: \<open>toLocale\<close> stands for \<open>toLocaleString(undefined, { maximumFractionDigits: 2 })\<close>,
  \<open>toLocaleDefault\<close> for \<open>toLocaleString()\<close>, \<open>toFixed2\<close> for \<open>toFixed(2)\<close> and \<open>toNumber\<close>
  for \<open>Number(s)\<close> on a string. On a boolean, which the declared type excludes,
  \<open>toLocaleString\<close> is \<open>toString\<close>.
\<close>

definition formatNumber :: "(jsnumber \<Rightarrow> string) \<Rightarrow> jsval \<Rightarrow> string" where
  "formatNumber toLocale v =
     (case v of
        JNull \<Rightarrow> ''N/A''
      | JUndefined \<Rightarrow> ''N/A''
      | JStr s \<Rightarrow> if s = ''N/A'' then ''N/A'' else s
      | JNum n \<Rightarrow> toLocale n
      | JBool b \<Rightarrow> (if b then ''true'' else ''false''))"

text \<open>Comparison with a finite constant, and division by one, on JavaScript numbers.\<close>

fun num_ge :: "jsnumber \<Rightarrow> real \<Rightarrow> bool" where
  "num_ge (Finite r) c = (r \<ge> c)"
| "num_ge PosInfinity c = True"
| "num_ge NegInfinity c = False"
| "num_ge NaN c = False"

fun num_less :: "jsnumber \<Rightarrow> real \<Rightarrow> bool" where
  "num_less (Finite r) c = (r < c)"
| "num_less NegInfinity c = True"
| "num_less PosInfinity c = False"
| "num_less NaN c = False"

fun num_div :: "jsnumber \<Rightarrow> real \<Rightarrow> jsnumber" where
  "num_div (Finite r) c = Finite (r / c)"
| "num_div n c = n"

definition formatMarketCap ::
  "(jsnumber \<Rightarrow> string) \<Rightarrow> (jsnumber \<Rightarrow> string) \<Rightarrow> jsval \<Rightarrow> string" where
  "formatMarketCap toFixed2 toLocaleDefault v =
     (case v of
        JNull \<Rightarrow> ''N/A''
      | JUndefined \<Rightarrow> ''N/A''
      | JStr s \<Rightarrow> if s = ''N/A'' then ''N/A'' else s
      | JNum n \<Rightarrow>
          if num_ge n 1000000000000 then ''$'' @ toFixed2 (num_div n 1000000000000) @ ''T''
          else if num_ge n 1000000000 then ''$'' @ toFixed2 (num_div n 1000000000) @ ''B''
          else if num_ge n 1000000 then ''$'' @ toFixed2 (num_div n 1000000) @ ''M''
          else ''$'' @ toLocaleDefault n
      | JBool b \<Rightarrow> ''$'' @ (if b then ''true'' else ''false''))"

definition formatPercent :: "(jsnumber \<Rightarrow> string) \<Rightarrow> jsval \<Rightarrow> string" where
  "formatPercent toLocale v =
     (case v of
        JNull \<Rightarrow> ''N/A''
      | JUndefined \<Rightarrow> ''N/A''
      | JStr s \<Rightarrow> if s = ''N/A'' then ''N/A'' else s
      | _ \<Rightarrow> formatNumber toLocale v @ ''%'')"

definition getPEColorClass :: "jsval \<Rightarrow> string" where
  "getPEColorClass pe =
     (case pe of
        JNum n \<Rightarrow>
          if num_less n 0 then ''text-gray-400''
          else if num_less n 15 then ''text-green-600 font-semibold''
          else if num_less n 25 then ''text-yellow-600''
          else ''text-red-600''
      | _ \<Rightarrow> [])"

text \<open>\<open>coerceNumber\<close>: a finite number, or \<open>None\<close> for its \<open>null\<close>.\<close>

definition finite_part :: "jsnumber \<Rightarrow> real option" where
  "finite_part n = (case n of Finite r \<Rightarrow> Some r | _ \<Rightarrow> None)"

definition coerceNumber :: "(string \<Rightarrow> jsnumber) \<Rightarrow> jsval \<Rightarrow> real option" where
  "coerceNumber toNumber v =
     (case v of
        JNull \<Rightarrow> None
      | JUndefined \<Rightarrow> None
      | JNum n \<Rightarrow> finite_part n
      | JStr s \<Rightarrow> if trim s = [] \<or> s = ''N/A'' then None else finite_part (toNumber s)
      | JBool b \<Rightarrow> None)"






section \<open>\<open>stockColumns.tsx\<close>: the columns of the table\<close>

text \<open>
  The accessors of \<open>getStockColumns\<close>. \<open>fund f\<close> is \<open>row.fundamentals?.f\<close> and
  \<open>fund_text f\<close> is \<open>row.fundamentals?.f || 'N/A'\<close>.
\<close>

definition fund :: "(Fundamentals \<Rightarrow> numstr) \<Rightarrow> Stock \<Rightarrow> jsval" where
  "fund f row = (case fundamentals row of None \<Rightarrow> JUndefined | Some x \<Rightarrow> of_numstr (f x))"

definition fund_text :: "(Fundamentals \<Rightarrow> string) \<Rightarrow> Stock \<Rightarrow> string" where
  "fund_text f row =
     (case fundamentals row of None \<Rightarrow> ''N/A'' | Some x \<Rightarrow> if f x = [] then ''N/A'' else f x)"

text \<open>
  The columns in the order of the source, each with its \<open>id\<close> and its accessor
  (\<open>accessorKey\<close> or \<open>accessorFn\<close>); the expander column has none.
\<close>

definition stock_columns :: "(string \<times> (Stock \<Rightarrow> jsval) option) list" where
  "stock_columns =
     [(''expander'', None),
      (''ticker'', Some (\<lambda>row. JStr (ticker row))),
      (''company_name'', Some (\<lambda>row. JStr (company_name row))),
      (''pe_ratio'', Some (fund pe_ratio)),
      (''pb_ratio'', Some (fund pb_ratio)),
      (''week_52_low'', Some (fund week_52_low)),
      (''week_52_high'', Some (fund week_52_high)),
      (''pct_above_52w_low'', Some (fund pct_above_52w_low)),
      (''pct_below_52w_high'', Some (fund pct_below_52w_high)),
      (''sources'', Some (\<lambda>row. JStr (join '', '' (sources row)))),
      (''investors'', Some (\<lambda>row. JNum (investor_count row))),
      (''activity'', Some (\<lambda>row. JStr (aggregate_activity row))),
      (''market_cap'', Some (fund market_cap)),
      (''peg_ratio'', Some (fund peg_ratio)),
      (''forward_pe'', Some (fund forward_pe)),
      (''total_cash'', Some (fund total_cash)),
      (''total_debt'', Some (fund total_debt)),
      (''net_debt'', Some (fund net_debt)),
      (''insider_pct'', Some (fund insider_pct)),
      (''institutional_pct'', Some (fund institutional_pct)),
      (''sector'', Some (\<lambda>row. JStr (fund_text sector row))),
      (''industry'', Some (\<lambda>row. JStr (fund_text industry row))),
      (''current_price'', Some (fund current_price)),
      (''is_etf'', Some (\<lambda>row. JStr (if is_etf row then ''Yes'' else ''No''))),
      (''thesis'', Some (\<lambda>row. JStr (case thesis row of None \<Rightarrow> [] | Some t \<Rightarrow> t))),
      (''link'', Some (\<lambda>row. JStr (stockanalysis_link row)))]"

text \<open>\<open>row.getValue(columnId)\<close>: the value of the column's accessor.\<close>

definition getValue :: "Stock \<Rightarrow> string \<Rightarrow> jsval" where
  "getValue row columnId =
     (case map_of stock_columns columnId of Some (Some f) \<Rightarrow> f row | _ \<Rightarrow> JUndefined)"

text \<open>
  The two filters that read the record itself (\<open>row.original\<close>) rather than the column's
  value: those of the columns \<open>sources\<close> and \<open>is_etf\<close>. An absent filter value is the empty
  list, or the empty string.
\<close>

definition sources_filterFn :: "Stock \<Rightarrow> string list \<Rightarrow> bool" where
  "sources_filterFn row filterValue =
     (if filterValue = [] then True
      else list_ex (\<lambda>source. source \<in> set (sources row)) filterValue)"

definition is_etf_filterFn :: "Stock \<Rightarrow> string \<Rightarrow> bool" where
  "is_etf_filterFn row filterValue =
     (if filterValue = [] then True
      else if filterValue = ''yes'' then is_etf row
      else if filterValue = ''no'' then \<not> is_etf row
      else True)"

text \<open>The \<open>globalFilterFn\<close> of \<open>App.tsx\<close>.\<close>

definition globalFilterFn :: "Stock \<Rightarrow> string \<Rightarrow> bool" where
  "globalFilterFn row filterValue =
     (let query = trim (toLowerCase filterValue) in
      if query = [] then True
      else if str_includes (toLowerCase (ticker row)) query then True
      else if str_includes (toLowerCase (company_name row)) query then True
      else list_ex (\<lambda>inv. str_includes (toLowerCase (name inv)) query)
             (investors (dataroma_data row)))"

text \<open>
  The field names C4 lists, as an agreement of two records on them, and the fields the
  table goes through: its accessors and filters above, its cells and the expanded row
  below.
\<close>

definition same_listed_fields :: "Stock \<Rightarrow> Stock \<Rightarrow> bool" where
  "same_listed_fields a b =
     (ticker a = ticker b \<and> company_name a = company_name b \<and> sources a = sources b
      \<and> investors (dataroma_data a) = investors (dataroma_data b)
      \<and> mentions (substack_data a) = mentions (substack_data b)
      \<and> fundamentals a = fundamentals b
      \<and> aggregate_activity a = aggregate_activity b
      \<and> investor_count a = investor_count b \<and> mention_count a = mention_count b
      \<and> stockanalysis_link a = stockanalysis_link b)"

definition same_read_fields :: "Stock \<Rightarrow> Stock \<Rightarrow> bool" where
  "same_read_fields a b =
     (ticker a = ticker b \<and> company_name a = company_name b \<and> sources a = sources b
      \<and> investors (dataroma_data a) = investors (dataroma_data b)
      \<and> mentions (substack_data a) = mentions (substack_data b)
      \<and> fundamentals a = fundamentals b
      \<and> aggregate_activity a = aggregate_activity b
      \<and> investor_count a = investor_count b
      \<and> stockanalysis_link a = stockanalysis_link b
      \<and> is_etf a = is_etf b \<and> thesis a = thesis b)"

section \<open>\<open>ThesisGenerator.tsx\<close>\<close>

text \<open>The component's state: \<open>isLoading\<close> and \<open>error\<close> (\<open>None\<close> is \<open>null\<close>).\<close>

record generator_state =
  isLoading :: bool
  error :: "string option"

text \<open>
  What the component renders. With a thesis it is the thesis text, cut at 80 characters;
  without one it is the button and, when \<open>error\<close> is a non-empty string, the error text
  beside it (\<open>{error && ...}\<close> renders nothing for \<open>null\<close> and for the empty string).
\<close>

definition ThesisGenerator :: "Stock \<Rightarrow> generator_state \<Rightarrow> jsx" where
  "ThesisGenerator stock st =
     (let th = (case thesis stock of None \<Rightarrow> [] | Some t \<Rightarrow> trim t) in
      if th \<noteq> [] then
        Element ''span''
          [(''className'', ''truncate max-w-[220px] block text-sm text-gray-600''), (''title'', th)]
          [Text (if length th > 80 then take 80 th @ ''...'' else th)]
      else
        Element ''div'' [(''className'', ''flex flex-col items-start gap-1'')]
          (Element ''button''
             [(''type'', ''button''), (''disabled'', if isLoading st then ''true'' else ''false''),
              (''className'', ''px-3 py-1 text-xs bg-indigo-600 text-white rounded-md hover:bg-indigo-700 disabled:opacity-60'')]
             [Text (if isLoading st then ''Generating...'' else ''Generate'')]
           # (case error st of
                None \<Rightarrow> []
              | Some e \<Rightarrow>
                  if e = [] then []
                  else [Element ''span'' [(''className'', ''text-xs text-red-600'')] [Text e]])))"

text \<open>
  The outcome of \<open>fetch('/api/thesis', ...)\<close> followed by \<open>response.json()\<close>. Either may
  reject, with an \<open>Error\<close> carrying a message or with some other value; a response has
  its \<open>ok\<close> flag and a payload, \<open>None\<close> for the JSON value \<open>null\<close>.
\<close>

datatype thrown = ErrorObject string | NotAnError

datatype json_outcome = JsonRejects thrown | JsonResolves "ThesisResponse option"

datatype fetch_outcome = FetchRejects thrown | FetchResolves bool json_outcome

text \<open>The body the component sends.\<close>

definition thesis_request :: "Stock \<Rightarrow> string \<Rightarrow> ThesisRequest" where
  "thesis_request stock pw =
     \<lparr> req_ticker = Some (ticker stock), req_company_name = Some (company_name stock),
       req_investor_names = Some (map name (investors (dataroma_data stock))),
       req_password = Some pw \<rparr>"

text \<open>
  What one click leaves behind: the component's state, the stored password
  (\<open>sessionStorage\<close>), the requests sent and the calls of \<open>onThesisUpdate\<close>.
\<close>

record generate_result =
  new_state :: generator_state
  new_session :: "string option"
  requests :: "ThesisRequest list"
  thesis_updates :: "(string \<times> string) list"

definition falsy :: "string option \<Rightarrow> bool" where
  "falsy x = (x = None \<or> x = Some [])"

text \<open>
  \<open>err instanceof Error ? err.message : 'Failed to generate thesis'\<close>, and
  \<open>payload?.error || 'Failed to generate thesis'\<close>.
\<close>

definition thrown_message :: "thrown \<Rightarrow> string" where
  "thrown_message e = (case e of ErrorObject m \<Rightarrow> m | NotAnError \<Rightarrow> ''Failed to generate thesis'')"

definition payload_message :: "ThesisResponse option \<Rightarrow> string" where
  "payload_message payload =
     (case payload of
        None \<Rightarrow> ''Failed to generate thesis''
      | Some p \<Rightarrow>
          (case r_error p of
             None \<Rightarrow> ''Failed to generate thesis''
           | Some e \<Rightarrow> if e = [] then ''Failed to generate thesis'' else e))"

text \<open>
  The password of a click: the stored one, or else what the prompt returns
  (\<open>window.prompt(...) || ''\<close>).
\<close>

definition resolve_password :: "string option \<Rightarrow> string option \<Rightarrow> string" where
  "resolve_password session answer =
     (case session of
        None \<Rightarrow> (case answer of None \<Rightarrow> [] | Some a \<Rightarrow> a)
      | Some stored \<Rightarrow>
          if stored = [] then (case answer of None \<Rightarrow> [] | Some a \<Rightarrow> a) else stored)"

text \<open>
  \<open>handleGenerate\<close>. \<open>server\<close> answers a request; \<open>answer\<close> is what \<open>window.prompt\<close> returns
  if it is shown (\<open>None\<close>: cancelled); \<open>session\<close> is the stored password. The \<open>finally\<close>
  block leaves \<open>isLoading\<close> false on every path through the \<open>try\<close>.
\<close>

definition handleGenerate ::
  "(ThesisRequest \<Rightarrow> fetch_outcome) \<Rightarrow> string option \<Rightarrow> Stock \<Rightarrow> generator_state \<Rightarrow> string option
     \<Rightarrow> generate_result"
where
  "handleGenerate server answer stock st session =
     (if isLoading st then
        \<lparr> new_state = st, new_session = session, requests = [], thesis_updates = [] \<rparr>
      else
        (let st1 = st\<lparr>error := None\<rparr>;
             password = resolve_password session answer;
             session1 = (if falsy session \<and> password \<noteq> [] then Some password else session)
         in
         if password = [] then
           \<lparr> new_state = st1, new_session = session, requests = [], thesis_updates = [] \<rparr>
         else
           (let request = thesis_request stock password;
                failed = (\<lambda>msg. \<lparr> new_state = \<lparr> isLoading = False, error = Some msg \<rparr>,
                                  new_session = session1, requests = [request],
                                  thesis_updates = [] \<rparr>)
            in
            (case server request of
               FetchRejects e \<Rightarrow> failed (thrown_message e)
             | FetchResolves ok js \<Rightarrow>
                (case js of
                   JsonRejects e \<Rightarrow> failed (thrown_message e)
                 | JsonResolves payload \<Rightarrow>
                    (case payload of
                       None \<Rightarrow> failed (payload_message payload)
                     | Some p \<Rightarrow>
                        if \<not> ok \<or> \<not> r_success p then failed (payload_message payload)
                        else
                          \<lparr> new_state = \<lparr> isLoading = False, error = None \<rparr>,
                            new_session = session1, requests = [request],
                            thesis_updates =
                              [(ticker stock, (case r_thesis p of None \<Rightarrow> [] | Some t \<Rightarrow> t))] \<rparr>))))))"

text \<open>The three failures C8 names.\<close>

definition generation_fails :: "fetch_outcome \<Rightarrow> bool" where
  "generation_fails out =
     (case out of
        FetchRejects e \<Rightarrow> True
      | FetchResolves ok js \<Rightarrow>
         (case js of
            JsonRejects e \<Rightarrow> True
          | JsonResolves payload \<Rightarrow>
              \<not> ok \<or> \<not> (case payload of None \<Rightarrow> False | Some p \<Rightarrow> r_success p)))"

definition failure_message :: "fetch_outcome \<Rightarrow> string" where
  "failure_message out =
     (case out of
        FetchRejects e \<Rightarrow> thrown_message e
      | FetchResolves ok js \<Rightarrow>
         (case js of JsonRejects e \<Rightarrow> thrown_message e | JsonResolves payload \<Rightarrow> payload_message payload))"

section \<open>\<open>stockColumns.tsx\<close> and \<open>ExpandedRow.tsx\<close>: what a row renders\<close>

text \<open>
  The number-to-text conversions of the runtime, which the cells use:
  \<open>rt_toLocale\<close> is \<open>toLocaleString(undefined, { maximumFractionDigits: 2 })\<close>,
  \<open>rt_toLocaleDefault\<close> is \<open>toLocaleString()\<close>, \<open>rt_toFixed\<close> is \<open>toFixed(2)\<close> and \<open>rt_toString\<close> is the
  conversion of a template literal or of a number placed in JSX.
\<close>

record runtime =
  rt_toLocale :: "jsnumber \<Rightarrow> string"
  rt_toLocaleDefault :: "jsnumber \<Rightarrow> string"
  rt_toFixed :: "jsnumber \<Rightarrow> string"
  rt_toString :: "jsnumber \<Rightarrow> string"

fun num_greater :: "jsnumber \<Rightarrow> real \<Rightarrow> bool" where
  "num_greater (Finite r) c = (r > c)"
| "num_greater PosInfinity c = True"
| "num_greater NegInfinity c = False"
| "num_greater NaN c = False"

fun num_minus :: "jsnumber \<Rightarrow> real \<Rightarrow> jsnumber" where
  "num_minus (Finite r) c = Finite (r - c)"
| "num_minus n c = n"

definition getDistanceClass :: "jsval \<Rightarrow> string \<Rightarrow> string" where
  "getDistanceClass v mode =
     (case v of
        JNum n \<Rightarrow>
          if mode = ''above'' \<and> num_less n 10 then ''text-green-600 font-semibold''
          else if mode = ''below'' \<and> num_less n 10 then ''text-red-600 font-semibold''
          else []
      | _ \<Rightarrow> [])"

text \<open>An icon: static markup that shows nothing of the record.\<close>

definition icon :: jsx where
  "icon = Element ''svg'' [] []"

text \<open>
  \<open>$\<close> and the formatted number, or \<open>N/A\<close>: the cells of \<open>week_52_low\<close>, \<open>week_52_high\<close>
  and \<open>current_price\<close>.
\<close>

definition price_text :: "runtime \<Rightarrow> jsval \<Rightarrow> string" where
  "price_text rt v =
     (if v \<noteq> JStr ''N/A'' then ''$'' @ formatNumber (rt_toLocale rt) v else ''N/A'')"

text \<open>The cell of the column \<open>investors\<close>.\<close>

definition investors_cell :: "runtime \<Rightarrow> Stock \<Rightarrow> jsx" where
  "investors_cell rt row =
     (let count = investor_count row in
      if count = Finite 0 then Text ''-''
      else
        (let names = map name (take 3 (investors (dataroma_data row)));
             displayText =
               (if num_greater count 3
                then join '', '' names @ '' +'' @ rt_toString rt (num_minus count 3)
                else join '', '' names)
         in Element ''span''
              [(''className'', ''text-sm''),
               (''title'', join '', '' (map name (investors (dataroma_data row))))]
              [Element ''span'' [(''className'', ''font-semibold text-blue-600'')]
                 [Text (rt_toString rt count)],
               Element ''span''
                 [(''className'', ''text-gray-500 ml-1 truncate max-w-[150px] inline-block align-bottom'')]
                 [Text (''('' @ displayText @ '')'')]]))"

text \<open>The cell of the column \<open>sources\<close>.\<close>

definition sources_cell :: "Stock \<Rightarrow> jsx" where
  "sources_cell row =
     Element ''div'' [(''className'', ''flex gap-1'')]
       ((if ''Dataroma'' \<in> set (sources row)
         then [Element ''span''
                 [(''className'', ''px-2 py-1 text-xs rounded-full bg-blue-100 text-blue-800'')]
                 [Text ''Dataroma'']]
         else [])
        @ (if ''Substack'' \<in> set (sources row)
           then [Element ''span''
                   [(''className'', ''px-2 py-1 text-xs rounded-full bg-purple-100 text-purple-800'')]
                   [Text ''Substack'']]
           else []))"

text \<open>
  The cells of \<open>getStockColumns\<close>, by column id and in the order of the source. \<open>st\<close> is
  the state of the row's thesis generator. The expander's cell is a button that shows
  the table's expansion state and nothing of the record; it is left out.
\<close>

definition stock_cells :: "runtime \<Rightarrow> generator_state \<Rightarrow> (string \<times> (Stock \<Rightarrow> jsx)) list" where
  "stock_cells rt st =
     [(''ticker'', \<lambda>row. Element ''span'' [(''className'', ''font-bold text-blue-600'')]
         [Text (ticker row)]),
      (''company_name'', \<lambda>row. Element ''span''
         [(''className'', ''truncate max-w-[200px] block''), (''title'', company_name row)]
         [Text (company_name row)]),
      (''pe_ratio'', \<lambda>row. Element ''span'' [(''className'', getPEColorClass (fund pe_ratio row))]
         [Text (formatNumber (rt_toLocale rt) (fund pe_ratio row))]),
      (''pb_ratio'', \<lambda>row. Text (formatNumber (rt_toLocale rt) (fund pb_ratio row))),
      (''week_52_low'', \<lambda>row. Text (price_text rt (fund week_52_low row))),
      (''week_52_high'', \<lambda>row. Text (price_text rt (fund week_52_high row))),
      (''pct_above_52w_low'', \<lambda>row. Element ''span''
         [(''className'', getDistanceClass (fund pct_above_52w_low row) ''above'')]
         [Text (formatPercent (rt_toLocale rt) (fund pct_above_52w_low row))]),
      (''pct_below_52w_high'', \<lambda>row. Element ''span''
         [(''className'', getDistanceClass (fund pct_below_52w_high row) ''below'')]
         [Text (formatPercent (rt_toLocale rt) (fund pct_below_52w_high row))]),
      (''sources'', sources_cell),
      (''investors'', investors_cell rt),
      (''activity'', activity_cell),
      (''market_cap'', \<lambda>row. Text (formatMarketCap (rt_toFixed rt) (rt_toLocaleDefault rt) (fund market_cap row))),
      (''peg_ratio'', \<lambda>row. Text (formatNumber (rt_toLocale rt) (fund peg_ratio row))),
      (''forward_pe'', \<lambda>row. Text (formatNumber (rt_toLocale rt) (fund forward_pe row))),
      (''total_cash'', \<lambda>row. Text (formatMarketCap (rt_toFixed rt) (rt_toLocaleDefault rt) (fund total_cash row))),
      (''total_debt'', \<lambda>row. Text (formatMarketCap (rt_toFixed rt) (rt_toLocaleDefault rt) (fund total_debt row))),
      (''net_debt'', \<lambda>row. Text (formatMarketCap (rt_toFixed rt) (rt_toLocaleDefault rt) (fund net_debt row))),
      (''insider_pct'', \<lambda>row. Text (formatPercent (rt_toLocale rt) (fund insider_pct row))),
      (''institutional_pct'', \<lambda>row. Text (formatPercent (rt_toLocale rt) (fund institutional_pct row))),
      (''sector'', \<lambda>row. Text (fund_text sector row)),
      (''industry'', \<lambda>row. Element ''span''
         ((''className'', ''truncate max-w-[150px] block'')
          # (case fundamentals row of None \<Rightarrow> [] | Some f \<Rightarrow> [(''title'', industry f)]))
         [Text (fund_text industry row)]),
      (''current_price'', \<lambda>row. Text (price_text rt (fund current_price row))),
      (''is_etf'', \<lambda>row. Text (if is_etf row then ''Yes'' else ''No'')),
      (''thesis'', \<lambda>row. ThesisGenerator row st),
      (''link'', \<lambda>row. Element ''a''
         [(''href'', stockanalysis_link row), (''target'', ''_blank''), (''rel'', ''noopener noreferrer''),
          (''className'', ''inline-flex items-center justify-center w-8 h-8 bg-blue-50 hover:bg-blue-100 rounded-lg transition''),
          (''title'', ''View on StockAnalysis'')]
         [icon])]"

text \<open>\<open>ExpandedRow.tsx\<close>: the names of the actions, and the formatter of the investor table.\<close>

fun action_name :: "action \<Rightarrow> string" where
  "action_name Buy = ''Buy''"
| "action_name Add = ''Add''"
| "action_name Sell = ''Sell''"
| "action_name Reduce = ''Reduce''"
| "action_name Hold = ''Hold''"
| "action_name New = ''New''"

definition investor_row :: "runtime \<Rightarrow> Investor \<Rightarrow> jsx" where
  "investor_row rt investor =
     Element ''tr'' [(''className'', ''border-b border-gray-100 hover:bg-gray-50'')]
       [Element ''td'' [(''className'', ''px-3 py-2 font-medium'')] [Text (name investor)],
        Element ''td'' [(''className'', ''px-3 py-2 text-right'')]
          [Text (case portfolio_pct investor of None \<Rightarrow> ''-'' | Some p \<Rightarrow> rt_toLocale rt p @ ''%'')],
        Element ''td'' [(''className'', ''px-3 py-2 text-right'')]
          [Text (case shares investor of None \<Rightarrow> ''-'' | Some n \<Rightarrow> rt_toLocale rt n)],
        Element ''td'' [(''className'', ''px-3 py-2 text-center'')]
          [if action (activity investor) \<noteq> Hold
           then Element ''span''
                  [(''className'', ''px-2 py-1 text-xs rounded-full ''
                      @ getActivityBadgeClass (action_name (action (activity investor))))]
                  (Text (action_name (action (activity investor)))
                   # (case percentage (activity investor) of
                        None \<Rightarrow> []
                      | Some p \<Rightarrow> [Text ('' '' @ rt_toString rt p @ ''%'')]))
           else Element ''span'' [(''className'', ''text-gray-400'')] [Text ''-'']],
        Element ''td'' [(''className'', ''px-3 py-2 text-center'')]
          [Element ''a''
             [(''href'', source_url investor), (''target'', ''_blank''), (''rel'', ''noopener noreferrer''),
              (''className'', ''text-blue-600 hover:text-blue-800''),
              (''title'', ''View investor's portfolio'')]
             [icon]]]"

text \<open>
  \<open>InvestorTable\<close> and \<open>SubstackMentions\<close>: nothing for an empty list (the component
  returns \<open>null\<close>), else one element.
\<close>

definition InvestorTable :: "runtime \<Rightarrow> Investor list \<Rightarrow> jsx list" where
  "InvestorTable rt invs =
     (if length invs = 0 then []
      else
        [Element ''div'' [(''className'', ''mb-4'')]
           [Element ''h4''
              [(''className'', ''text-sm font-semibold text-gray-700 mb-2 flex items-center gap-2'')]
              [icon, Text (''Superinvestors ('' @ rt_toString rt (Finite (real (length invs))) @ '')'')],
            Element ''div'' [(''className'', ''overflow-x-auto'')]
              [Element ''table'' [(''className'', ''w-full text-sm'')]
                 [Element ''thead'' []
                    [Element ''tr'' [(''className'', ''bg-gray-100'')]
                       [Element ''th'' [(''className'', ''px-3 py-2 text-left font-medium text-gray-600'')] [Text ''Investor''],
                        Element ''th'' [(''className'', ''px-3 py-2 text-right font-medium text-gray-600'')] [Text ''Portfolio %''],
                        Element ''th'' [(''className'', ''px-3 py-2 text-right font-medium text-gray-600'')] [Text ''Shares''],
                        Element ''th'' [(''className'', ''px-3 py-2 text-center font-medium text-gray-600'')] [Text ''Activity''],
                        Element ''th'' [(''className'', ''px-3 py-2 text-center font-medium text-gray-600'')] [Text ''Link'']]],
                  Element ''tbody'' [] (map (investor_row rt) invs)]]]])"

definition mention_card :: "SubstackMention \<Rightarrow> jsx" where
  "mention_card m =
     Element ''div'' [(''className'', ''flex items-start gap-3 p-2 bg-white rounded border'')]
       [Element ''div'' [(''className'', ''flex-1'')]
          (Element ''div'' [(''className'', ''flex items-center gap-2'')]
             [Element ''span'' [(''className'', ''font-medium text-purple-700'')] [Text (publication m)],
              Element ''a''
                [(''href'', article_url m), (''target'', ''_blank''), (''rel'', ''noopener noreferrer''),
                 (''className'', ''text-blue-600 hover:text-blue-800 text-sm flex items-center gap-1'')]
                [Text ''Read Article'', icon]]
           # (if mention_thesis m = [] then []
              else [Element ''p'' [(''className'', ''text-sm text-gray-600 mt-1 line-clamp-2'')]
                      [Text (mention_thesis m)]]))]"

definition SubstackMentions :: "runtime \<Rightarrow> SubstackMention list \<Rightarrow> jsx list" where
  "SubstackMentions rt ms =
     (if length ms = 0 then []
      else
        [Element ''div'' []
           [Element ''h4''
              [(''className'', ''text-sm font-semibold text-gray-700 mb-2 flex items-center gap-2'')]
              [icon, Text (''Mentioned In ('' @ rt_toString rt (Finite (real (length ms))) @ '')'')],
            Element ''div'' [(''className'', ''space-y-2'')] (map mention_card ms)]])"

definition mention_link :: "SubstackMention \<Rightarrow> jsx" where
  "mention_link m =
     Element ''a''
       [(''href'', article_url m), (''target'', ''_blank''), (''rel'', ''noopener noreferrer''),
        (''className'', ''inline-flex items-center gap-2 px-3 py-2 bg-purple-50 hover:bg-purple-100 rounded-lg text-sm transition'')]
       [Element ''span'' [(''className'', ''font-medium text-purple-700'')] [Text (publication m)], icon]"

definition ExpandedRow :: "runtime \<Rightarrow> Stock \<Rightarrow> jsx" where
  "ExpandedRow rt stock =
     (let invs = investors (dataroma_data stock);
          ms = mentions (substack_data stock);
          hasInvestors = (length invs > 0);
          hasMentions = (length ms > 0);
          hasThesis = (case thesis stock of None \<Rightarrow> False | Some t \<Rightarrow> t \<noteq> [] \<and> length (trim t) > 0)
      in
      if \<not> hasInvestors \<and> \<not> hasMentions \<and> \<not> hasThesis then
        Element ''div'' [(''className'', ''p-4 text-sm text-gray-500 italic'')]
          [Text ''No additional details available for this stock.'']
      else
        Element ''div'' [(''className'', ''p-4 expanded-content'')]
          ((if hasThesis
            then [Element ''div'' [(''className'', ''mb-4'')]
                    [Element ''h4''
                       [(''className'', ''text-sm font-semibold text-gray-700 mb-2 flex items-center gap-2'')]
                       [icon, Text ''Thesis''],
                     Element ''div''
                       [(''className'', ''text-sm text-gray-700 bg-white border rounded p-3'')]
                       [Text (case thesis stock of None \<Rightarrow> [] | Some t \<Rightarrow> t)]]]
            else [])
           @ (if hasInvestors \<and> hasMentions
              then [Element ''div'' [(''className'', ''grid grid-cols-1 lg:grid-cols-2 gap-4'')]
                      (InvestorTable rt invs @ SubstackMentions rt ms)]
              else [])
           @ (if hasInvestors \<and> \<not> hasMentions then InvestorTable rt invs else [])
           @ (if \<not> hasInvestors \<and> hasMentions
              then [Element ''div'' [(''className'', ''flex flex-wrap gap-2'')] (map mention_link ms)]
              else [])))"

text \<open>The \<open>sectorOptions\<close> of \<open>App.tsx\<close> take from a record its sector, when it has one.\<close>

definition sector_option :: "Stock \<Rightarrow> string option" where
  "sector_option stock =
     (case fundamentals stock of
        None \<Rightarrow> None
      | Some f \<Rightarrow> if sector f \<noteq> [] \<and> sector f \<noteq> ''N/A'' then Some (sector f) else None)"

section \<open>\<open>useColumnPreferences.ts\<close>: column visibility and the share URL\<close>

text \<open>
  \<open>ColumnConfig\<close>; its field \<open>id\<close> is \<open>col_id\<close> here and its field \<open>group\<close> is
  \<open>col_group\<close>.
\<close>

record ColumnConfig =
  col_id :: string
  label :: string
  visible :: bool
  col_group :: string

definition column :: "string \<Rightarrow> string \<Rightarrow> bool \<Rightarrow> string \<Rightarrow> ColumnConfig" where
  "column i l v g = \<lparr> col_id = i, label = l, visible = v, col_group = g \<rparr>"

definition DEFAULT_COLUMNS :: "ColumnConfig list" where
  "DEFAULT_COLUMNS =
     [column ''ticker'' ''Ticker'' True ''basic'',
      column ''company_name'' ''Company'' True ''basic'',
      column ''pe_ratio'' ''PE Ratio'' True ''valuation'',
      column ''pb_ratio'' ''PB Ratio'' True ''valuation'',
      column ''week_52_low'' ''52W Low'' True ''valuation'',
      column ''week_52_high'' ''52W High'' True ''valuation'',
      column ''pct_above_52w_low'' ''% Above Low'' True ''valuation'',
      column ''pct_below_52w_high'' ''% Below High'' True ''valuation'',
      column ''sources'' ''Sources'' True ''basic'',
      column ''investors'' ''Investors'' True ''basic'',
      column ''activity'' ''Activity'' True ''basic'',
      column ''market_cap'' ''Market Cap'' False ''valuation'',
      column ''peg_ratio'' ''PEG'' False ''valuation'',
      column ''forward_pe'' ''Fwd PE'' False ''valuation'',
      column ''total_cash'' ''Cash'' False ''valuation'',
      column ''total_debt'' ''Total Debt'' False ''valuation'',
      column ''net_debt'' ''Net Debt'' False ''valuation'',
      column ''insider_pct'' ''Insider %'' False ''other'',
      column ''institutional_pct'' ''Inst %'' False ''other'',
      column ''sector'' ''Sector'' False ''basic'',
      column ''industry'' ''Industry'' False ''basic'',
      column ''current_price'' ''Price'' False ''valuation'',
      column ''is_etf'' ''ETF'' False ''basic'',
      column ''thesis'' ''Thesis'' False ''basic'',
      column ''link'' ''Link'' True ''basic'']"

text \<open>
  The page's address: the part before the query, and the query as the list of name and
  value pairs that \<open>URLSearchParams\<close> reads from it and writes back to it. Serialising the
  pairs into the address and parsing them on the next load gives the same pairs, so the
  address is kept in this form.
\<close>

record Location =
  origin_path :: string
  search :: "(string \<times> string) list"

text \<open>
  \<open>URLSearchParams.get\<close> is the value of the first pair with the name (\<open>map_of\<close>);
  \<open>URLSearchParams.set\<close> puts the value into the first pair with the name and removes the
  others, or appends a pair.
\<close>

fun searchParams_set :: "string \<Rightarrow> string \<Rightarrow> (string \<times> string) list \<Rightarrow> (string \<times> string) list" where
  "searchParams_set k v [] = [(k, v)]"
| "searchParams_set k v (p # ps) =
     (if fst p = k then (k, v) # filter (\<lambda>q. fst q \<noteq> k) ps else p # searchParams_set k v ps)"

text \<open>\<open>String.prototype.split\<close> with a separator of one character.\<close>

fun split_on :: "char \<Rightarrow> string \<Rightarrow> string list" where
  "split_on sep [] = [[]]"
| "split_on sep (c # cs) =
     (if c = sep then [] # split_on sep cs
      else (case split_on sep cs of [] \<Rightarrow> [[c]] | w # ws \<Rightarrow> (c # w) # ws))"

definition getColumnsFromUrl :: "(string \<times> string) list \<Rightarrow> string list option" where
  "getColumnsFromUrl params =
     (case map_of params ''cols'' of
        None \<Rightarrow> None
      | Some cols \<Rightarrow> if cols = [] then None else Some (map trim (split_on CHR '','' cols)))"

text \<open>
  The initial state of \<open>useColumnPreferences\<close>: the address first, then the stored
  preferences (\<open>None\<close> when \<open>getColumnsFromStorage\<close> returns \<open>null\<close>), then the defaults.
\<close>

definition initialColumns ::
  "(string \<times> string) list \<Rightarrow> ColumnConfig list option \<Rightarrow> ColumnConfig list" where
  "initialColumns params storedCols =
     (case getColumnsFromUrl params of
        Some urlCols \<Rightarrow> map (\<lambda>col. col\<lparr>visible := col_id col \<in> set urlCols\<rparr>) DEFAULT_COLUMNS
      | None \<Rightarrow> (case storedCols of Some cols \<Rightarrow> cols | None \<Rightarrow> DEFAULT_COLUMNS))"

definition toggleColumn :: "string \<Rightarrow> ColumnConfig list \<Rightarrow> ColumnConfig list" where
  "toggleColumn columnId prev =
     map (\<lambda>col. if col_id col = columnId then col\<lparr>visible := \<not> visible col\<rparr> else col) prev"

definition getShareableUrl :: "ColumnConfig list \<Rightarrow> Location \<Rightarrow> Location" where
  "getShareableUrl columns loc =
     (let visibleCols = map col_id (filter visible columns) in
      loc\<lparr>search := searchParams_set ''cols'' (join '','' visibleCols) (search loc)\<rparr>)"

section \<open>Sample data\<close>

definition sample_investor :: Investor where
  "sample_investor =
     \<lparr> name = ''Warren Buffett'', fund_id = ''BRK'', portfolio_pct = Some (Finite 45.2),
       shares = Some (Finite 1000), activity = \<lparr> action = Add, percentage = Some (Finite 2) \<rparr>,
       activity_raw = ''Add 2.00%'', source_url = ''https://www.dataroma.com/m/holdings.php?m=BRK'' \<rparr>"

definition sample_mention :: SubstackMention where
  "sample_mention =
     \<lparr> publication = ''Value Notes'', article_title = ''Five ideas for the year'',
       article_url = ''https://valuenotes.substack.com/p/five-ideas'',
       mention_thesis = ''Priced below its cash flows.'', published_date = None \<rparr>"

definition sample_aapl :: Stock where
  "sample_aapl =
     \<lparr> ticker = ''AAPL'', company_name = ''Apple Inc.'', sources = [''Dataroma'', ''Substack''],
       dataroma_data = \<lparr> investors = [sample_investor] \<rparr>,
       substack_data = \<lparr> mentions = [sample_mention] \<rparr>,
       fundamentals = None,
       stockanalysis_link = ''https://stockanalysis.com/stocks/aapl/'',
       is_etf = False, thesis = None, aggregate_activity = ''Add'',
       investor_count = Finite 1, mention_count = Finite 1 \<rparr>"

definition sample_xyz :: Stock where
  "sample_xyz =
     \<lparr> ticker = ''XYZ'', company_name = ''Xyz Corp.'', sources = [''Substack''],
       dataroma_data = \<lparr> investors = [] \<rparr>,
       substack_data = \<lparr> mentions = [sample_mention] \<rparr>,
       fundamentals = None,
       stockanalysis_link = ''https://stockanalysis.com/stocks/xyz/'',
       is_etf = False, thesis = None, aggregate_activity = ''Hold'',
       investor_count = Finite 0, mention_count = Finite 1 \<rparr>"

definition sample_data :: StockData where
  "sample_data =
     \<lparr> last_updated = ''2026-01-03T10:00:00Z'', total_stocks = Finite 2,
       stats = \<lparr> dataroma_stocks = Finite 1, substack_stocks = Finite 2, both_sources = Finite 1,
                 dataroma_only = Finite 0, substack_only = Finite 1 \<rparr>,
       stocks = [sample_aapl, sample_xyz] \<rparr>"

definition sample_env :: process_env where
  "sample_env = \<lparr> THESIS_PASSWORD = Some ''s3cret'', PERPLEXITY_API_KEY = Some ''pplx-key'' \<rparr>"

definition sample_api :: "perplexity_request \<Rightarrow> fetch_result" where
  "sample_api call = FetchResponse True None (JsonContent (Some '' Strong moat and buybacks. ''))"

definition sample_preflight :: Request where
  "sample_preflight = \<lparr> req_method = ''OPTIONS'', json_body = None \<rparr>"

definition sample_post :: "string \<Rightarrow> Request" where
  "sample_post pw =
     \<lparr> req_method = ''POST'',
       json_body = Some \<lparr> req_ticker = Some ''AAPL'', req_company_name = Some ''Apple Inc.'',
                          req_investor_names = Some [''Warren Buffett''], req_password = Some pw \<rparr> \<rparr>"

definition unavailable_fundamentals :: Fundamentals where
  "unavailable_fundamentals =
     \<lparr> pe_ratio = Str ''N/A'', forward_pe = Str ''N/A'', pb_ratio = Str ''N/A'',
       peg_ratio = Str ''N/A'', week_52_high = Str ''N/A'', week_52_low = Str ''N/A'',
       pct_above_52w_low = Str ''N/A'', pct_below_52w_high = Str ''N/A'',
       current_price = Str ''N/A'', previous_close = Str ''N/A'', total_cash = Str ''N/A'',
       total_debt = Str ''N/A'', long_term_debt = Str ''N/A'', net_debt = Str ''N/A'',
       market_cap = Str ''N/A'', insider_pct = Str ''N/A'', institutional_pct = Str ''N/A'',
       sector = ''N/A'', industry = ''N/A'', country = ''N/A'', currency = ''N/A'',
       exchange = ''N/A'', is_international = False \<rparr>"

definition sample_fundamentals :: Fundamentals where
  "sample_fundamentals =
     unavailable_fundamentals
       \<lparr> pe_ratio := Num (Finite 28.5), pb_ratio := Num (Finite 45.2),
         market_cap := Num (Finite 3000000000000), sector := ''Technology'',
         industry := ''Consumer Electronics'', country := ''United States'',
         currency := ''USD'', exchange := ''NMS'' \<rparr>"


definition with_pe :: "Stock \<Rightarrow> numstr \<Rightarrow> Stock" where
  "with_pe s v = s\<lparr>fundamentals := Some (unavailable_fundamentals\<lparr>pe_ratio := v\<rparr>)\<rparr>"

definition sample_runtime :: runtime where
  "sample_runtime =
     \<lparr> rt_toLocale = (\<lambda>n. ''n''), rt_toLocaleDefault = (\<lambda>n. ''n''), rt_toFixed = (\<lambda>n. ''n''),
       rt_toString = (\<lambda>n. ''n'') \<rparr>"

definition idle :: generator_state where
  "idle = \<lparr> isLoading = False, error = None \<rparr>"

definition rejecting_server :: "string \<Rightarrow> ThesisRequest \<Rightarrow> fetch_outcome" where
  "rejecting_server msg request = FetchRejects (ErrorObject msg)"

definition hidden_columns :: "ColumnConfig list" where
  "hidden_columns = map (\<lambda>col. col\<lparr>visible := False\<rparr>) DEFAULT_COLUMNS"

definition dashboard_location :: Location where
  "dashboard_location = \<lparr> origin_path = ''https://example.github.io/investment-automation/'', search = [] \<rparr>"

section \<open>Theorems\<close>

text \<open>
  C1. For every stocks array, the number of stocks listing both sources is at most the
  number listing Dataroma and at most the number listing Substack, in the counts
  \<open>updateMetadata\<close> computes and shows.
\<close>

theorem updateMetadata_both_le_min:
  "bothCount data \<le> min (dataromaCount data) (substackCount data)
   \<and> both_sources_text (updateMetadata data)
       \<le> min (dataroma_count_text (updateMetadata data)) (substack_count_text (updateMetadata data))"
proof -
  let ?D = "\<lambda>s. ''Dataroma'' \<in> set (sources s)"
  let ?S = "\<lambda>s. ''Substack'' \<in> set (sources s)"
  have both_D: "filter (\<lambda>s. ?D s \<and> ?S s) (stocks data) = filter ?S (filter ?D (stocks data))"
    by simp
  have both_S: "filter (\<lambda>s. ?D s \<and> ?S s) (stocks data) = filter ?D (filter ?S (stocks data))"
    by (simp add: conj_commute)
  have d: "bothCount data \<le> dataromaCount data"
    unfolding bothCount_def dataromaCount_def both_D by (rule length_filter_le)
  have s: "bothCount data \<le> substackCount data"
    unfolding bothCount_def substackCount_def both_S by (rule length_filter_le)
  from d s show ?thesis
    by (simp add: updateMetadata_def)
qed

text \<open>
  C9. \<open>handleThesisUpdate ticker thesis\<close> leaves the top-level fields \<open>last_updated\<close>,
  \<open>total_stocks\<close> and \<open>stats\<close> as they are, keeps the number and order of the stocks,
  leaves every stock with another ticker unchanged, and in a stock with this ticker changes
  the field \<open>thesis\<close> only. The \<open>null\<close> state stays \<open>null\<close>.
\<close>

theorem handleThesisUpdate_frame:
  "handleThesisUpdate t th None = None \<and>
   (\<exists>d'. handleThesisUpdate t th (Some d) = Some d'
      \<and> last_updated d' = last_updated d
      \<and> total_stocks d' = total_stocks d
      \<and> stats d' = stats d
      \<and> length (stocks d') = length (stocks d)
      \<and> (\<forall>i < length (stocks d).
            (ticker (stocks d ! i) \<noteq> t \<longrightarrow> stocks d' ! i = stocks d ! i)
          \<and> (ticker (stocks d ! i) = t \<longrightarrow>
                thesis (stocks d' ! i) = Some th
              \<and> ticker (stocks d' ! i) = ticker (stocks d ! i)
              \<and> company_name (stocks d' ! i) = company_name (stocks d ! i)
              \<and> sources (stocks d' ! i) = sources (stocks d ! i)
              \<and> dataroma_data (stocks d' ! i) = dataroma_data (stocks d ! i)
              \<and> substack_data (stocks d' ! i) = substack_data (stocks d ! i)
              \<and> fundamentals (stocks d' ! i) = fundamentals (stocks d ! i)
              \<and> stockanalysis_link (stocks d' ! i) = stockanalysis_link (stocks d ! i)
              \<and> is_etf (stocks d' ! i) = is_etf (stocks d ! i)
              \<and> aggregate_activity (stocks d' ! i) = aggregate_activity (stocks d ! i)
              \<and> investor_count (stocks d' ! i) = investor_count (stocks d ! i)
              \<and> mention_count (stocks d' ! i) = mention_count (stocks d ! i))))"
  by (simp add: handleThesisUpdate_def)

theorem handleThesisUpdate_frame_witness:
  "\<exists>d'. handleThesisUpdate ''XYZ'' ''Cheap on cash flow'' (Some sample_data) = Some d'
     \<and> last_updated d' = ''2026-01-03T10:00:00Z''
     \<and> stats d' = stats sample_data
     \<and> stocks d' ! 0 = sample_aapl
     \<and> thesis (stocks d' ! 1) = Some ''Cheap on cash flow''
     \<and> company_name (stocks d' ! 1) = ''Xyz Corp.''
     \<and> aggregate_activity (stocks d' ! 1) = ''Hold''"
  using handleThesisUpdate_frame [of "''XYZ''" "''Cheap on cash flow''" sample_data]
  by (auto simp: sample_data_def sample_aapl_def sample_xyz_def)

text \<open>
  C6. A stock whose \<open>aggregate_activity\<close> is \<open>'Hold'\<close> gets the grey dash in the Activity
  column, not a badge; the legacy table renders the dash as well, for the value \<open>'Hold'\<close>
  and for a row without the value.
\<close>

theorem activity_cell_hold_is_dash:
  "aggregate_activity row = ''Hold'' \<Longrightarrow>
     activity_cell row = Element ''span'' [(''className'', ''text-gray-400'')] [Text ''-'']
   \<and> legacy_activity_render (Some (aggregate_activity row)) = ''-''
   \<and> legacy_activity_render None = ''-''"
  by (simp add: activity_cell_def legacy_activity_render_def)

theorem activity_cell_hold_is_dash_witness:
  "aggregate_activity sample_xyz = ''Hold''
   \<and> activity_cell sample_xyz = Element ''span'' [(''className'', ''text-gray-400'')] [Text ''-'']
   \<and> legacy_activity_render (Some (aggregate_activity sample_xyz)) = ''-''"
proof -
  have h: "aggregate_activity sample_xyz = ''Hold''"
    by (simp add: sample_xyz_def)
  from activity_cell_hold_is_dash [OF h] h show ?thesis
    by simp
qed

subsection \<open>The thesis endpoint\<close>

lemma handler_json_shape:
  "req_method request \<noteq> ''OPTIONS'' \<Longrightarrow>
     \<exists>r. body (fst (handler env api request)) = Some r
        \<and> ((status (fst (handler env api request)) = 200 \<and> success_shape r
              \<and> (\<exists>b tk. json_body request = Some b \<and> req_ticker b = Some tk
                          \<and> r_ticker r = Some tk))
           \<or> (status (fst (handler env api request)) \<noteq> 200 \<and> failure_shape r))"
  by (auto simp: handler_def failure_def success_shape_def failure_shape_def Let_def
      split: option.splits fetch_result.splits json_result.splits)

lemma handler_wrong_password:
  "request_password request \<noteq> THESIS_PASSWORD env \<Longrightarrow>
     snd (handler env api request) = []
   \<and> (req_method request \<noteq> ''OPTIONS'' \<longrightarrow>
        (\<exists>r. body (fst (handler env api request)) = Some r \<and> failure_shape r))"
  by (auto simp: handler_def failure_def request_password_def failure_shape_def Let_def
      split: option.splits fetch_result.splits json_result.splits)

lemma handler_preflight:
  "req_method request = ''OPTIONS'' \<Longrightarrow>
     body (fst (handler env api request)) = None \<and> status (fst (handler env api request)) = 200
     \<and> snd (handler env api request) = []"
  by (simp add: handler_def)

lemma handler_preflight_reads_nothing:
  "req_method request = ''OPTIONS'' \<Longrightarrow>
     handler env' api' (request\<lparr>json_body := b\<rparr>) = handler env api request"
  by (simp add: handler_def)

lemma handler_success_example:
  "fst (handler sample_env sample_api (sample_post ''s3cret'')) =
     \<lparr> status = 200, headers = json_headers,
       body = Some \<lparr> r_success = True, r_thesis = Some ''Strong moat and buybacks.'',
                     r_error = None, r_ticker = Some ''AAPL'' \<rparr> \<rparr>
   \<and> length (snd (handler sample_env sample_api (sample_post ''s3cret''))) = 1"
  by (simp add: handler_def sample_env_def sample_post_def sample_api_def Let_def trim_def
      is_space_def)

text \<open>
  C3, as the claim states it, fails at a CORS preflight: the handler answers an
  \<open>OPTIONS\<close> request with status 200 and a \<open>null\<close> body before it reads anything, so
  the body is neither of the two JSON shapes, and a preflight (which carries no password)
  does not get \<open>success: false\<close>.
\<close>

theorem handler_preflight_counterexample:
  "request_password sample_preflight \<noteq> THESIS_PASSWORD sample_env
   \<and> body (fst (handler sample_env sample_api sample_preflight)) = None"
  by (simp add: handler_def sample_preflight_def sample_env_def request_password_def)

text \<open>
  C3, amended. For every request whose method is not \<open>OPTIONS\<close> the response body is
  JSON of the shape \<open>{ success: true, thesis }\<close>, with status 200 and with the ticker of
  the request's body echoed in \<open>ticker\<close>, or of the shape \<open>{ success: false, error }\<close>,
  with any other status. For every request whose password differs from the configured
  \<open>THESIS_PASSWORD\<close> the Perplexity API is never called, and unless the request is a
  preflight the response is \<open>success: false\<close> with an error message. A preflight gets
  status 200 with an empty body and makes no call; its answer is the same whatever the
  request's body, the configuration and the remote service are.
\<close>

theorem handler_response_contract:
  "(req_method request \<noteq> ''OPTIONS'' \<longrightarrow>
      (\<exists>r. body (fst (handler env api request)) = Some r
         \<and> ((status (fst (handler env api request)) = 200 \<and> success_shape r
               \<and> (\<exists>b tk. json_body request = Some b \<and> req_ticker b = Some tk
                           \<and> r_ticker r = Some tk))
            \<or> (status (fst (handler env api request)) \<noteq> 200 \<and> failure_shape r))))
   \<and> (request_password request \<noteq> THESIS_PASSWORD env \<longrightarrow>
         snd (handler env api request) = []
       \<and> (req_method request \<noteq> ''OPTIONS'' \<longrightarrow>
            (\<exists>r. body (fst (handler env api request)) = Some r \<and> failure_shape r)))
   \<and> (req_method request = ''OPTIONS'' \<longrightarrow>
         body (fst (handler env api request)) = None
       \<and> status (fst (handler env api request)) = 200
       \<and> snd (handler env api request) = []
       \<and> (\<forall>env' api' b.
             handler env' api' (request\<lparr>json_body := b\<rparr>) = handler env api request))"
proof -
  have "req_method request = ''OPTIONS'' \<longrightarrow>
      (\<forall>env' api' b. handler env' api' (request\<lparr>json_body := b\<rparr>) = handler env api request)"
    using handler_preflight_reads_nothing [of request _ _ _ env api] by blast
  then show ?thesis
    using handler_json_shape [of request env api] handler_wrong_password [of request env api]
      handler_preflight [of request env api]
    by blast
qed

theorem handler_response_contract_witness:
  "req_method (sample_post ''guess'') \<noteq> ''OPTIONS''
   \<and> request_password (sample_post ''guess'') \<noteq> THESIS_PASSWORD sample_env
   \<and> snd (handler sample_env sample_api (sample_post ''guess'')) = []
   \<and> (\<exists>r. body (fst (handler sample_env sample_api (sample_post ''guess''))) = Some r
          \<and> failure_shape r)
   \<and> status (fst (handler sample_env sample_api (sample_post ''s3cret''))) = 200
   \<and> (\<exists>r. body (fst (handler sample_env sample_api (sample_post ''s3cret''))) = Some r
          \<and> success_shape r \<and> r_ticker r = Some ''AAPL'')
   \<and> req_method sample_preflight = ''OPTIONS''
   \<and> handler \<lparr> THESIS_PASSWORD = None, PERPLEXITY_API_KEY = None \<rparr> (\<lambda>call. FetchThrows)
        (sample_preflight\<lparr>json_body := json_body (sample_post ''s3cret'')\<rparr>)
       = handler sample_env sample_api sample_preflight"
proof -
  have m: "req_method (sample_post pw) \<noteq> ''OPTIONS''" for pw
    by (simp add: sample_post_def)
  have p: "request_password (sample_post ''guess'') \<noteq> THESIS_PASSWORD sample_env"
    by (simp add: sample_post_def sample_env_def request_password_def)
  have s: "status (fst (handler sample_env sample_api (sample_post ''s3cret''))) = 200"
    by (simp add: handler_success_example)
  have t: "json_body (sample_post ''s3cret'') = Some b \<Longrightarrow> req_ticker b = Some ''AAPL''" for b
    by (auto simp: sample_post_def)
  have o: "req_method sample_preflight = ''OPTIONS''"
    by (simp add: sample_preflight_def)
  have wrong: "snd (handler sample_env sample_api (sample_post ''guess'')) = []
      \<and> (\<exists>r. body (fst (handler sample_env sample_api (sample_post ''guess''))) = Some r
             \<and> failure_shape r)"
    using handler_response_contract [of "sample_post ''guess''" sample_env sample_api] m p
    by blast
  have right: "\<exists>r. body (fst (handler sample_env sample_api (sample_post ''s3cret''))) = Some r
      \<and> success_shape r \<and> r_ticker r = Some ''AAPL''"
    using handler_response_contract [of "sample_post ''s3cret''" sample_env sample_api] m s t
    by fastforce
  have pre: "handler \<lparr> THESIS_PASSWORD = None, PERPLEXITY_API_KEY = None \<rparr> (\<lambda>call. FetchThrows)
        (sample_preflight\<lparr>json_body := json_body (sample_post ''s3cret'')\<rparr>)
       = handler sample_env sample_api sample_preflight"
    using handler_response_contract [of sample_preflight sample_env sample_api] o
    by blast
  from m p s o wrong right pre show ?thesis
    by blast
qed

subsection \<open>The Merger\<close>

lemma find_SomeD: "find P xs = Some a \<Longrightarrow> P a \<and> a \<in> set xs"
  by (induction xs) (auto split: if_splits)

lemma aggregate_new: "New \<in> set tags \<Longrightarrow> aggregate_activity_of tags = New"
  by (simp add: aggregate_activity_of_def)

lemma aggregate_add_buy:
  "New \<notin> set tags \<Longrightarrow> Add \<in> set tags \<or> Buy \<in> set tags \<Longrightarrow>
   (aggregate_activity_of tags = Add \<or> aggregate_activity_of tags = Buy)
   \<and> aggregate_activity_of tags \<in> set tags"
  by (auto simp: aggregate_activity_of_def find_None_iff split: option.splits dest: find_SomeD)

lemma aggregate_reduce_sell:
  "New \<notin> set tags \<Longrightarrow> Add \<notin> set tags \<Longrightarrow> Buy \<notin> set tags \<Longrightarrow>
   Reduce \<in> set tags \<or> Sell \<in> set tags \<Longrightarrow>
   (aggregate_activity_of tags = Reduce \<or> aggregate_activity_of tags = Sell)
   \<and> aggregate_activity_of tags \<in> set tags"
  by (auto simp: aggregate_activity_of_def find_None_iff split: option.splits dest: find_SomeD)

lemma aggregate_hold: "set tags \<subseteq> {Hold} \<Longrightarrow> aggregate_activity_of tags = Hold"
  by (auto simp: aggregate_activity_of_def split: option.splits dest!: find_SomeD)

text \<open>
  C2. The aggregate activity follows the precedence New, then Add or Buy, then Reduce or
  Sell, then Hold: with a New observation the aggregate is New; otherwise with an Add or
  a Buy it is one of these tags, taken from the observations; otherwise with a Reduce or
  a Sell it is one of those; with nothing but Hold, or no observations, it is Hold. The
  spec's examples: \<open>[Hold, New, Sell]\<close> gives New, \<open>[Reduce, Hold]\<close> gives Reduce, \<open>[]\<close>
  gives Hold.
\<close>

theorem aggregate_activity_precedence:
  "(New \<in> set tags \<longrightarrow> aggregate_activity_of tags = New)
   \<and> (New \<notin> set tags \<and> (Add \<in> set tags \<or> Buy \<in> set tags) \<longrightarrow>
         (aggregate_activity_of tags = Add \<or> aggregate_activity_of tags = Buy)
         \<and> aggregate_activity_of tags \<in> set tags)
   \<and> (New \<notin> set tags \<and> Add \<notin> set tags \<and> Buy \<notin> set tags
         \<and> (Reduce \<in> set tags \<or> Sell \<in> set tags) \<longrightarrow>
         (aggregate_activity_of tags = Reduce \<or> aggregate_activity_of tags = Sell)
         \<and> aggregate_activity_of tags \<in> set tags)
   \<and> (set tags \<subseteq> {Hold} \<longrightarrow> aggregate_activity_of tags = Hold)
   \<and> aggregate_activity_of [] = Hold
   \<and> aggregate_activity_of [Hold, New, Sell] = New
   \<and> aggregate_activity_of [Reduce, Hold] = Reduce"
proof -
  have examples:
    "aggregate_activity_of [] = Hold"
    "aggregate_activity_of [Hold, New, Sell] = New"
    "aggregate_activity_of [Reduce, Hold] = Reduce"
    by (simp_all add: aggregate_activity_of_def)
  show ?thesis
    using aggregate_new [of tags] aggregate_add_buy [of tags] aggregate_reduce_sell [of tags]
      aggregate_hold [of tags] examples
    by blast
qed

theorem aggregate_activity_precedence_witness:
  "New \<notin> set [Hold, Sell, Buy, Reduce, Add] \<and> Buy \<in> set [Hold, Sell, Buy, Reduce, Add]
   \<and> (aggregate_activity_of [Hold, Sell, Buy, Reduce, Add] = Add
        \<or> aggregate_activity_of [Hold, Sell, Buy, Reduce, Add] = Buy)
   \<and> aggregate_activity_of [Hold, Sell, Buy, Reduce, Add] \<in> set [Hold, Sell, Buy, Reduce, Add]
   \<and> aggregate_activity_of [Hold, New, Sell] = New"
proof -
  have h: "New \<notin> set [Hold, Sell, Buy, Reduce, Add]" "Buy \<in> set [Hold, Sell, Buy, Reduce, Add]"
    by simp_all
  from aggregate_activity_precedence [of "[Hold, Sell, Buy, Reduce, Add]"] h
  show ?thesis by blast
qed

subsection \<open>The fundamentals and their readers\<close>












text \<open>
  With a \<open>Number\<close> that reads every string as 0, as JavaScript's reads the empty and
  the blank string, \<open>coerceNumber\<close> still gives \<open>null\<close> for \<open>null\<close>, for the empty
  string and for a blank one.
\<close>

lemma coerceNumber_null_and_blank:
  "coerceNumber (\<lambda>t. Finite 0) JNull = None \<and> coerceNumber (\<lambda>t. Finite 0) (JStr []) = None
   \<and> coerceNumber (\<lambda>t. Finite 0) (JStr ''  '') = None
   \<and> coerceNumber (\<lambda>t. Finite 0) (JStr ''0'') = Some 0"
  by (simp add: coerceNumber_def finite_part_def trim_def is_space_def)


subsection \<open>The fields the table reads\<close>

lemma getValue_same_read_fields:
  "same_read_fields a b \<Longrightarrow> getValue a columnId = getValue b columnId"
  by (auto simp: same_read_fields_def getValue_def stock_columns_def fund_def fund_text_def)

lemma filters_same_read_fields:
  "same_read_fields a b \<Longrightarrow>
     sources_filterFn a fv = sources_filterFn b fv \<and> is_etf_filterFn a fs = is_etf_filterFn b fs
   \<and> globalFilterFn a q = globalFilterFn b q \<and> sector_option a = sector_option b"
  by (simp add: same_read_fields_def sources_filterFn_def is_etf_filterFn_def globalFilterFn_def
      sector_option_def)

lemma thesis_cell_same_read_fields:
  "same_read_fields a b \<Longrightarrow>
     ThesisGenerator a st = ThesisGenerator b st \<and> thesis_request a pw = thesis_request b pw"
  by (simp add: same_read_fields_def ThesisGenerator_def thesis_request_def)

lemma cells_same_read_fields:
  assumes "same_read_fields a b"
  shows "map (\<lambda>c. snd c a) (stock_cells rt st) = map (\<lambda>c. snd c b) (stock_cells rt st)"
proof -
  have f: "fund g a = fund g b" "fund_text h a = fund_text h b" for g h
    using assms by (simp_all add: same_read_fields_def fund_def fund_text_def)
  have c: "sources_cell a = sources_cell b" "investors_cell rt a = investors_cell rt b"
    "activity_cell a = activity_cell b" "ThesisGenerator a st = ThesisGenerator b st"
    using assms
    by (simp_all add: same_read_fields_def sources_cell_def investors_cell_def activity_cell_def
        ThesisGenerator_def Let_def)
  have r: "ticker a = ticker b" "company_name a = company_name b" "is_etf a = is_etf b"
    "stockanalysis_link a = stockanalysis_link b" "fundamentals a = fundamentals b"
    using assms by (simp_all add: same_read_fields_def)
  show ?thesis
    by (simp add: stock_cells_def f c r)
qed

lemma ExpandedRow_same_read_fields:
  "same_read_fields a b \<Longrightarrow> ExpandedRow rt a = ExpandedRow rt b"
  by (simp add: same_read_fields_def ExpandedRow_def Let_def)

text \<open>
  Each of the eleven fields is read: changing it alone in a record changes the value of
  a column, the result of the search filter, or the expanded row.
\<close>

lemma columns_read_their_field:
  "getValue (sample_aapl\<lparr>ticker := ''MSFT''\<rparr>) ''ticker'' \<noteq> getValue sample_aapl ''ticker''
   \<and> getValue (sample_aapl\<lparr>company_name := ''Apple''\<rparr>) ''company_name''
       \<noteq> getValue sample_aapl ''company_name''
   \<and> getValue (sample_aapl\<lparr>sources := [''Dataroma'']\<rparr>) ''sources''
       \<noteq> getValue sample_aapl ''sources''
   \<and> getValue (sample_aapl\<lparr>fundamentals := Some sample_fundamentals\<rparr>) ''pe_ratio''
       \<noteq> getValue sample_aapl ''pe_ratio''
   \<and> getValue (sample_aapl\<lparr>aggregate_activity := ''Hold''\<rparr>) ''activity''
       \<noteq> getValue sample_aapl ''activity''
   \<and> getValue (sample_aapl\<lparr>investor_count := Finite 2\<rparr>) ''investors''
       \<noteq> getValue sample_aapl ''investors''
   \<and> getValue (sample_aapl\<lparr>stockanalysis_link := []\<rparr>) ''link'' \<noteq> getValue sample_aapl ''link''
   \<and> getValue (sample_aapl\<lparr>is_etf := True\<rparr>) ''is_etf'' \<noteq> getValue sample_aapl ''is_etf''
   \<and> getValue (sample_aapl\<lparr>thesis := Some ''Cheap''\<rparr>) ''thesis''
       \<noteq> getValue sample_aapl ''thesis''"
  by (simp add: getValue_def stock_columns_def sample_aapl_def sample_fundamentals_def
      unavailable_fundamentals_def fund_def)

lemma search_reads_investors:
  "globalFilterFn (sample_aapl\<lparr>dataroma_data := \<lparr> investors = [] \<rparr>\<rparr>) ''Buffett''
     \<noteq> globalFilterFn sample_aapl ''Buffett''"
  by (simp add: globalFilterFn_def sample_aapl_def sample_investor_def toLowerCase_def
      lower_char_def trim_def is_space_def Let_def)

lemma ExpandedRow_reads_mentions:
  "ExpandedRow rt (sample_aapl\<lparr>substack_data := \<lparr> mentions = [] \<rparr>\<rparr>) \<noteq> ExpandedRow rt sample_aapl"
  by (simp add: ExpandedRow_def sample_aapl_def InvestorTable_def SubstackMentions_def Let_def)

text \<open>
  The keys of the legacy table, split by the listed names: five are among them, eight are
  not.
\<close>

lemma legacy_keys_split:
  "filter listed_key legacy_column_data =
     [''ticker'', ''company_name'', ''sources'', ''dataroma_data.investors'', ''stockanalysis_link'']
   \<and> filter (\<lambda>k. \<not> listed_key k) legacy_column_data =
       [''pe_ratio'', ''pb_ratio'', ''week_52_high'', ''week_52_low'', ''peg_ratio'', ''insider_pct'',
        ''dataroma_data.activity'', ''substack_data.thesis'']"
  by (simp add: legacy_column_data_def listed_key_def)

text \<open>
  C4, as the claim states it, fails in both dashboards. The React table also reads
  \<open>is_etf\<close> and \<open>thesis\<close>, which are not among the listed names: two records that agree
  on every listed field get different values in the columns \<open>is_etf\<close> and \<open>thesis\<close>. The
  legacy table has columns bound to keys that are not listed names: the ratio \<open>pe_ratio\<close>
  at the top level of the record, and \<open>substack_data.thesis\<close>.
\<close>

theorem listed_fields_counterexample:
  "same_listed_fields sample_xyz (sample_xyz\<lparr>is_etf := True, thesis := Some ''Cheap''\<rparr>)
   \<and> getValue sample_xyz ''is_etf'' = JStr ''No''
   \<and> getValue (sample_xyz\<lparr>is_etf := True, thesis := Some ''Cheap''\<rparr>) ''is_etf'' = JStr ''Yes''
   \<and> getValue sample_xyz ''thesis'' = JStr []
   \<and> getValue (sample_xyz\<lparr>is_etf := True, thesis := Some ''Cheap''\<rparr>) ''thesis'' = JStr ''Cheap''
   \<and> legacy_column_data ! 2 = ''pe_ratio'' \<and> \<not> listed_key ''pe_ratio''
   \<and> legacy_column_data ! 11 = ''substack_data.thesis'' \<and> \<not> listed_key ''substack_data.thesis''
   \<and> \<not> list_all listed_key legacy_column_data"
  by (simp add: same_listed_fields_def getValue_def stock_columns_def sample_xyz_def
      legacy_column_data_def listed_key_def)

text \<open>
  C4, amended. The React table reads a stock record through \<open>ticker\<close>, \<open>company_name\<close>,
  \<open>sources\<close>, \<open>dataroma_data.investors\<close>, \<open>substack_data.mentions\<close>, \<open>fundamentals\<close>,
  \<open>aggregate_activity\<close>, \<open>investor_count\<close>, \<open>stockanalysis_link\<close>, \<open>is_etf\<close> and \<open>thesis\<close>
  only: two records that agree on these fields get the same value in every column, the
  same filter results and sector option, the same cells, the same expanded row and the
  same thesis request; so \<open>mention_count\<close> is read by none of them. Each of the eleven is
  read: a change of it alone shows in a column's value, in the search filter
  (\<open>dataroma_data.investors\<close>) or in the expanded row (\<open>substack_data.mentions\<close>). The
  legacy table binds its thirteen columns to the listed names \<open>ticker\<close>, \<open>company_name\<close>,
  \<open>sources\<close>, \<open>dataroma_data.investors\<close> and \<open>stockanalysis_link\<close> and, outside the
  listed names, to \<open>pe_ratio\<close>, \<open>pb_ratio\<close>, \<open>week_52_high\<close>, \<open>week_52_low\<close>,
  \<open>peg_ratio\<close> and \<open>insider_pct\<close> at the top level of the record, to
  \<open>dataroma_data.activity\<close> and to \<open>substack_data.thesis\<close>; not to \<open>mention_count\<close>.
\<close>

theorem table_reads_only_read_fields:
  "(same_read_fields a b \<longrightarrow>
       getValue a columnId = getValue b columnId
     \<and> sources_filterFn a fv = sources_filterFn b fv
     \<and> is_etf_filterFn a fs = is_etf_filterFn b fs
     \<and> globalFilterFn a q = globalFilterFn b q
     \<and> sector_option a = sector_option b
     \<and> map (\<lambda>c. snd c a) (stock_cells rt st) = map (\<lambda>c. snd c b) (stock_cells rt st)
     \<and> ExpandedRow rt a = ExpandedRow rt b
     \<and> thesis_request a pw = thesis_request b pw)
   \<and> same_read_fields a (a\<lparr>mention_count := n\<rparr>)
   \<and> getValue (sample_aapl\<lparr>ticker := ''MSFT''\<rparr>) ''ticker'' \<noteq> getValue sample_aapl ''ticker''
   \<and> getValue (sample_aapl\<lparr>company_name := ''Apple''\<rparr>) ''company_name''
       \<noteq> getValue sample_aapl ''company_name''
   \<and> getValue (sample_aapl\<lparr>sources := [''Dataroma'']\<rparr>) ''sources''
       \<noteq> getValue sample_aapl ''sources''
   \<and> globalFilterFn (sample_aapl\<lparr>dataroma_data := \<lparr> investors = [] \<rparr>\<rparr>) ''Buffett''
       \<noteq> globalFilterFn sample_aapl ''Buffett''
   \<and> ExpandedRow rt (sample_aapl\<lparr>substack_data := \<lparr> mentions = [] \<rparr>\<rparr>)
       \<noteq> ExpandedRow rt sample_aapl
   \<and> getValue (sample_aapl\<lparr>fundamentals := Some sample_fundamentals\<rparr>) ''pe_ratio''
       \<noteq> getValue sample_aapl ''pe_ratio''
   \<and> getValue (sample_aapl\<lparr>aggregate_activity := ''Hold''\<rparr>) ''activity''
       \<noteq> getValue sample_aapl ''activity''
   \<and> getValue (sample_aapl\<lparr>investor_count := Finite 2\<rparr>) ''investors''
       \<noteq> getValue sample_aapl ''investors''
   \<and> getValue (sample_aapl\<lparr>stockanalysis_link := []\<rparr>) ''link'' \<noteq> getValue sample_aapl ''link''
   \<and> getValue (sample_aapl\<lparr>is_etf := True\<rparr>) ''is_etf'' \<noteq> getValue sample_aapl ''is_etf''
   \<and> getValue (sample_aapl\<lparr>thesis := Some ''Cheap''\<rparr>) ''thesis''
       \<noteq> getValue sample_aapl ''thesis''
   \<and> filter listed_key legacy_column_data =
       [''ticker'', ''company_name'', ''sources'', ''dataroma_data.investors'', ''stockanalysis_link'']
   \<and> filter (\<lambda>k. \<not> listed_key k) legacy_column_data =
       [''pe_ratio'', ''pb_ratio'', ''week_52_high'', ''week_52_low'', ''peg_ratio'', ''insider_pct'',
        ''dataroma_data.activity'', ''substack_data.thesis'']"
proof -
  have frame: "same_read_fields a b \<longrightarrow>
       getValue a columnId = getValue b columnId
     \<and> sources_filterFn a fv = sources_filterFn b fv
     \<and> is_etf_filterFn a fs = is_etf_filterFn b fs
     \<and> globalFilterFn a q = globalFilterFn b q
     \<and> sector_option a = sector_option b
     \<and> map (\<lambda>c. snd c a) (stock_cells rt st) = map (\<lambda>c. snd c b) (stock_cells rt st)
     \<and> ExpandedRow rt a = ExpandedRow rt b
     \<and> thesis_request a pw = thesis_request b pw"
    using getValue_same_read_fields [of a b columnId] filters_same_read_fields [of a b fv fs q]
      cells_same_read_fields [of a b rt st] ExpandedRow_same_read_fields [of a b rt]
      thesis_cell_same_read_fields [of a b st pw]
    by simp
  have unread: "same_read_fields a (a\<lparr>mention_count := n\<rparr>)"
    by (simp add: same_read_fields_def)
  show ?thesis
    using frame unread columns_read_their_field search_reads_investors
      ExpandedRow_reads_mentions [of rt] legacy_keys_split
    by blast
qed

theorem table_reads_only_read_fields_witness:
  "same_read_fields sample_aapl (sample_aapl\<lparr>mention_count := Finite 7\<rparr>)
   \<and> getValue sample_aapl ''investors''
       = getValue (sample_aapl\<lparr>mention_count := Finite 7\<rparr>) ''investors''
   \<and> globalFilterFn sample_aapl ''buffett''
       = globalFilterFn (sample_aapl\<lparr>mention_count := Finite 7\<rparr>) ''buffett''
   \<and> ExpandedRow sample_runtime sample_aapl
       = ExpandedRow sample_runtime (sample_aapl\<lparr>mention_count := Finite 7\<rparr>)"
proof -
  have h: "same_read_fields sample_aapl (sample_aapl\<lparr>mention_count := Finite 7\<rparr>)"
    by (simp add: same_read_fields_def)
  from table_reads_only_read_fields
         [of sample_aapl "sample_aapl\<lparr>mention_count := Finite 7\<rparr>" "''investors''" _ _
             "''buffett''" sample_runtime] h
  show ?thesis by blast
qed

lemma getValue_examples:
  "getValue sample_aapl ''sources'' = JStr ''Dataroma, Substack''
   \<and> getValue sample_aapl ''investors'' = JNum (Finite 1)
   \<and> getValue sample_aapl ''pe_ratio'' = JUndefined
   \<and> getValue (with_pe sample_aapl (Num (Finite 28.5))) ''pe_ratio'' = JNum (Finite 28.5)
   \<and> getValue (with_pe sample_aapl (Num (Finite 28.5))) ''sector'' = JStr ''N/A''
   \<and> getValue sample_aapl ''expander'' = JUndefined"
  by (simp add: getValue_def stock_columns_def sample_aapl_def with_pe_def fund_def fund_text_def
      unavailable_fundamentals_def)

lemma globalFilterFn_example:
  "globalFilterFn sample_aapl '' Buffett '' \<and> \<not> globalFilterFn sample_xyz ''buffett''"
  by (simp add: globalFilterFn_def sample_aapl_def sample_xyz_def sample_investor_def
      toLowerCase_def lower_char_def trim_def is_space_def Let_def)

lemma cell_examples:
  "map_of (stock_cells sample_runtime idle) ''investors'' = Some (investors_cell sample_runtime)
   \<and> investors_cell sample_runtime sample_xyz = Text ''-''
   \<and> investors_cell sample_runtime sample_aapl =
       Element ''span'' [(''className'', ''text-sm''), (''title'', ''Warren Buffett'')]
         [Element ''span'' [(''className'', ''font-semibold text-blue-600'')] [Text ''n''],
          Element ''span''
            [(''className'', ''text-gray-500 ml-1 truncate max-w-[150px] inline-block align-bottom'')]
            [Text ''(Warren Buffett)'']]
   \<and> sources_cell sample_xyz =
       Element ''div'' [(''className'', ''flex gap-1'')]
         [Element ''span''
            [(''className'', ''px-2 py-1 text-xs rounded-full bg-purple-100 text-purple-800'')]
            [Text ''Substack'']]"
  by (simp add: stock_cells_def investors_cell_def sources_cell_def sample_runtime_def
      sample_aapl_def sample_xyz_def sample_investor_def Let_def)

subsection \<open>The thesis generator\<close>

text \<open>
  A click that reaches the request and fails sends exactly one request, calls
  \<open>onThesisUpdate\<close> not at all, and leaves the failure's message in \<open>error\<close> with
  \<open>isLoading\<close> false.
\<close>

lemma handleGenerate_failure:
  "\<not> isLoading st \<Longrightarrow> resolve_password session answer \<noteq> [] \<Longrightarrow>
   generation_fails (server (thesis_request stock (resolve_password session answer))) \<Longrightarrow>
     requests (handleGenerate server answer stock st session)
       = [thesis_request stock (resolve_password session answer)]
   \<and> thesis_updates (handleGenerate server answer stock st session) = []
   \<and> new_state (handleGenerate server answer stock st session)
       = \<lparr> isLoading = False,
           error = Some (failure_message (server (thesis_request stock (resolve_password session answer)))) \<rparr>"
  by (auto simp: handleGenerate_def generation_fails_def failure_message_def Let_def
      split: fetch_outcome.splits json_outcome.splits option.splits)

lemma handleGenerate_at_most_one_request:
  "length (requests (handleGenerate server answer stock st session)) \<le> 1"
  by (auto simp: handleGenerate_def Let_def
      split: fetch_outcome.splits json_outcome.splits option.splits)

text \<open>A non-empty message in \<open>error\<close> is shown beside the button.\<close>

lemma ThesisGenerator_shows_error:
  "thesis stock = None \<or> trim (the (thesis stock)) = [] \<Longrightarrow> msg \<noteq> [] \<Longrightarrow>
   ThesisGenerator stock \<lparr> isLoading = False, error = Some msg \<rparr> =
     Element ''div'' [(''className'', ''flex flex-col items-start gap-1'')]
       [Element ''button''
          [(''type'', ''button''), (''disabled'', ''false''),
           (''className'', ''px-3 py-1 text-xs bg-indigo-600 text-white rounded-md hover:bg-indigo-700 disabled:opacity-60'')]
          [Text ''Generate''],
        Element ''span'' [(''className'', ''text-xs text-red-600'')] [Text msg]]"
  by (auto simp: ThesisGenerator_def split: option.splits)

text \<open>
  The message is empty only when \<open>fetch\<close> or \<open>response.json()\<close> rejects with an \<open>Error\<close>
  whose message is empty: a payload without an error text falls back to
  \<open>Failed to generate thesis\<close>, a thrown \<open>Error\<close> does not.
\<close>

lemma failure_message_empty_iff:
  "failure_message out = [] \<longleftrightarrow>
     out = FetchRejects (ErrorObject [])
     \<or> (\<exists>ok. out = FetchResolves ok (JsonRejects (ErrorObject [])))"
  by (auto simp: failure_message_def thrown_message_def payload_message_def
      split: fetch_outcome.splits json_outcome.splits option.splits thrown.splits)

text \<open>
  C8. A failed generation is to appear as inline error text next to the button, with
  exactly one request per click. At a click whose \<open>fetch\<close> rejects with an \<open>Error\<close> of
  empty message the component does send exactly one request, but it stores the empty
  string in \<open>error\<close>, and what it renders is the button alone: no error text.
\<close>

theorem handleGenerate_empty_message_shows_nothing:
  "generation_fails (rejecting_server [] (thesis_request sample_xyz ''s3cret''))
   \<and> requests (handleGenerate (rejecting_server []) None sample_xyz idle (Some ''s3cret''))
       = [thesis_request sample_xyz ''s3cret'']
   \<and> error (new_state (handleGenerate (rejecting_server []) None sample_xyz idle (Some ''s3cret'')))
       = Some []
   \<and> ThesisGenerator sample_xyz
        (new_state (handleGenerate (rejecting_server []) None sample_xyz idle (Some ''s3cret'')))
       = Element ''div'' [(''className'', ''flex flex-col items-start gap-1'')]
           [Element ''button''
              [(''type'', ''button''), (''disabled'', ''false''),
               (''className'', ''px-3 py-1 text-xs bg-indigo-600 text-white rounded-md hover:bg-indigo-700 disabled:opacity-60'')]
              [Text ''Generate'']]"
  by (simp add: generation_fails_def handleGenerate_def idle_def resolve_password_def Let_def
      thrown_message_def ThesisGenerator_def sample_xyz_def rejecting_server_def falsy_def)

theorem handleGenerate_empty_message_shows_nothing_witness:
  "length (requests (handleGenerate (rejecting_server []) None sample_xyz idle (Some ''s3cret''))) = 1
   \<and> error (new_state (handleGenerate (rejecting_server []) None sample_xyz idle (Some ''s3cret'')))
       = Some []"
  using handleGenerate_empty_message_shows_nothing by simp

lemma handleGenerate_failure_example:
  "ThesisGenerator sample_xyz
     (new_state (handleGenerate (rejecting_server ''Failed to fetch'') None sample_xyz idle
        (Some ''s3cret'')))
   = Element ''div'' [(''className'', ''flex flex-col items-start gap-1'')]
       [Element ''button''
          [(''type'', ''button''), (''disabled'', ''false''),
           (''className'', ''px-3 py-1 text-xs bg-indigo-600 text-white rounded-md hover:bg-indigo-700 disabled:opacity-60'')]
          [Text ''Generate''],
        Element ''span'' [(''className'', ''text-xs text-red-600'')] [Text ''Failed to fetch'']]"
  by (simp add: handleGenerate_def idle_def resolve_password_def Let_def
      thrown_message_def ThesisGenerator_def sample_xyz_def rejecting_server_def falsy_def)


subsection \<open>The share URL\<close>

lemma split_on_no_sep: "sep \<notin> set x \<Longrightarrow> split_on sep x = [x]"
  by (induction x) auto

lemma split_on_append:
  "sep \<notin> set x \<Longrightarrow> split_on sep (x @ sep # rest) = x # split_on sep rest"
  by (induction x) auto

lemma split_on_join:
  "xs \<noteq> [] \<Longrightarrow> \<forall>x \<in> set xs. sep \<notin> set x \<Longrightarrow> split_on sep (join [sep] xs) = xs"
  by (induction "[sep]" xs rule: join.induct) (auto simp: split_on_no_sep split_on_append)

lemma dropWhile_none: "\<forall>c \<in> set x. \<not> P c \<Longrightarrow> dropWhile P x = x"
  by (cases x) auto

lemma trim_no_space: "\<forall>c \<in> set x. \<not> is_space c \<Longrightarrow> trim x = x"
  by (simp add: trim_def dropWhile_none)

lemma join_nonempty: "xs \<noteq> [] \<Longrightarrow> \<forall>x \<in> set xs. x \<noteq> [] \<Longrightarrow> join sep xs \<noteq> []"
  by (induction sep xs rule: join.induct) auto

lemma map_of_searchParams_set: "map_of (searchParams_set k v ps) k = Some v"
  by (induction ps) auto

lemma default_ids_distinct: "distinct (map col_id DEFAULT_COLUMNS)"
  by (simp add: DEFAULT_COLUMNS_def column_def)

lemma default_ids_plain:
  "\<forall>x \<in> set (map col_id DEFAULT_COLUMNS).
     x \<noteq> [] \<and> CHR '','' \<notin> set x \<and> (\<forall>c \<in> set x. \<not> is_space c)"
  by (simp add: DEFAULT_COLUMNS_def column_def is_space_def)

text \<open>The columns of the table are the default columns and the expander.\<close>

lemma stock_columns_ids:
  "set (map fst stock_columns) = insert ''expander'' (set (map col_id DEFAULT_COLUMNS))"
  by (simp add: stock_columns_def DEFAULT_COLUMNS_def column_def insert_commute)

lemma visible_ids:
  assumes d: "distinct (map col_id columns)" and c: "c \<in> set columns"
  shows "col_id c \<in> set (map col_id (filter visible columns)) \<longleftrightarrow> visible c"
proof
  assume "col_id c \<in> set (map col_id (filter visible columns))"
  then obtain c' where c': "c' \<in> set columns" "visible c'" "col_id c' = col_id c"
    by auto
  from d have "inj_on col_id (set columns)"
    by (simp add: distinct_map)
  with c c' have "c' = c"
    by (auto dest: inj_onD)
  with c' show "visible c" by simp
next
  assume "visible c"
  with c show "col_id c \<in> set (map col_id (filter visible columns))"
    by auto
qed

text \<open>
  With at least one visible column the share URL carries the visible ids, and a page
  opened at it shows exactly these columns, whatever is stored in the browser.
\<close>

lemma share_url_round_trip:
  assumes ids: "map col_id columns = map col_id DEFAULT_COLUMNS"
    and some: "\<exists>c \<in> set columns. visible c"
  shows "map visible (initialColumns (search (getShareableUrl columns loc)) storedCols)
           = map visible columns"
proof -
  let ?V = "map col_id (filter visible columns)"
  have sub: "set ?V \<subseteq> set (map col_id DEFAULT_COLUMNS)"
    using ids by (metis filter_is_subset image_mono list.set_map)
  have ne: "?V \<noteq> []"
    using some by (auto simp: filter_empty_conv)
  have plain: "\<forall>x \<in> set ?V. x \<noteq> [] \<and> CHR '','' \<notin> set x \<and> (\<forall>c \<in> set x. \<not> is_space c)"
    using sub default_ids_plain by blast
  have cols_ne: "join '','' ?V \<noteq> []"
    using ne plain by (intro join_nonempty) auto
  have sp: "split_on CHR '','' (join '','' ?V) = ?V"
    using ne plain by (intro split_on_join) auto
  have tr: "map trim ?V = ?V"
    using plain by (intro map_idI trim_no_space) auto
  have url: "getColumnsFromUrl (search (getShareableUrl columns loc)) = Some ?V"
    using cols_ne sp tr
    by (simp add: getColumnsFromUrl_def getShareableUrl_def map_of_searchParams_set Let_def)
  have dist: "distinct (map col_id columns)"
    using ids default_ids_distinct by simp
  have "map visible (initialColumns (search (getShareableUrl columns loc)) storedCols)
          = map (\<lambda>i. i \<in> set ?V) (map col_id DEFAULT_COLUMNS)"
    by (simp add: initialColumns_def url comp_def)
  also have "\<dots> = map (\<lambda>i. i \<in> set ?V) (map col_id columns)"
    by (simp only: ids)
  also have "\<dots> = map visible columns"
    using visible_ids [OF dist] by (simp add: comp_def)
  finally show ?thesis .
qed

lemma toggleColumn_ids: "map col_id (toggleColumn columnId prev) = map col_id prev"
  by (induction prev) (auto simp: toggleColumn_def)

text \<open>The configuration is reached from the defaults by unticking the visible columns.\<close>

lemma hidden_columns_reachable:
  "fold toggleColumn (map col_id (filter visible DEFAULT_COLUMNS)) DEFAULT_COLUMNS = hidden_columns"
  by (simp add: hidden_columns_def DEFAULT_COLUMNS_def column_def toggleColumn_def)

text \<open>
  C10. The share URL is to reproduce the visibility of every column. With every column
  hidden (each ticked off in the picker) the ids are still those of \<open>DEFAULT_COLUMNS\<close>,
  but \<open>getShareableUrl\<close> writes an empty \<open>cols\<close> parameter; \<open>getColumnsFromUrl\<close> takes the
  empty string for a missing parameter and returns \<open>null\<close>, so the URL branch is not
  taken, and a browser with nothing stored shows the default columns: twelve visible
  columns instead of none.
\<close>

theorem share_url_all_hidden_not_reproduced:
  "map col_id hidden_columns = map col_id DEFAULT_COLUMNS
   \<and> search (getShareableUrl hidden_columns dashboard_location) = [(''cols'', [])]
   \<and> getColumnsFromUrl (search (getShareableUrl hidden_columns dashboard_location)) = None
   \<and> initialColumns (search (getShareableUrl hidden_columns dashboard_location)) None
       = DEFAULT_COLUMNS
   \<and> length (filter visible
        (initialColumns (search (getShareableUrl hidden_columns dashboard_location)) None)) = 12
   \<and> filter visible hidden_columns = []
   \<and> map visible (initialColumns (search (getShareableUrl hidden_columns dashboard_location)) None)
       \<noteq> map visible hidden_columns"
  by (simp add: hidden_columns_def getShareableUrl_def dashboard_location_def getColumnsFromUrl_def
      initialColumns_def DEFAULT_COLUMNS_def column_def comp_def)

end
